theory Spec2Isabelle
  imports Main
begin

section \<open>JavaScript values\<close>

text \<open>
  The facade of \<^verbatim>\<open>FnDB.js\<close> handles keys, options and documents of any JavaScript
  type and branches on \<^verbatim>\<open>typeof\<close> and on truthiness, so values are modelled as a
  datatype. An object is the list of its own enumerable string-keyed properties in the
  order of \<^verbatim>\<open>Object.keys\<close> (names distinct), with \<^verbatim>\<open>Object.prototype\<close> as prototype.
  A number is an integer-valued number of magnitude below \<open>2 ^ 53\<close>; a string is a
  sequence of ASCII code units. Arrays, functions and class instances are not values of
  the model; the result list of a backend \<^verbatim>\<open>fetch\<close> is a HOL list.
\<close>

datatype jsval =
    JUndefined
  | JNull
  | JBool bool
  | JNum int
  | JStr string
  | JObj "(string \<times> jsval) list"

text \<open>
  A thrown value. \<open>Error msg\<close> is \<^verbatim>\<open>new Error(msg)\<close>, also used for the rejections of
  the Redis cluster client and of the storage backends; the other constructors are the
  errors the language itself raises (\<open>ReferenceError x\<close> for the unbound identifier \<open>x\<close>).
\<close>

datatype js_error =
    Error string
  | TypeError
  | ReferenceError string
  | SyntaxError

fun truthy :: "jsval \<Rightarrow> bool" where
  "truthy JUndefined = False"
| "truthy JNull = False"
| "truthy (JBool b) = b"
| "truthy (JNum n) = (n \<noteq> 0)"
| "truthy (JStr s) = (s \<noteq> [])"
| "truthy (JObj fs) = True"

fun typeof :: "jsval \<Rightarrow> string" where
  "typeof JUndefined = ''undefined''"
| "typeof JNull = ''object''"
| "typeof (JBool b) = ''boolean''"
| "typeof (JNum n) = ''number''"
| "typeof (JStr s) = ''string''"
| "typeof (JObj fs) = ''object''"

text \<open>Decimal digits of a natural number, as \<^verbatim>\<open>Number.prototype.toString\<close> prints them.\<close>

fun dec :: "nat \<Rightarrow> string" where
  "dec n = (if n < 10 then [''0123456789'' ! n]
            else dec (n div 10) @ [''0123456789'' ! (n mod 10)])"

declare dec.simps [simp del]

definition Number_toString :: "int \<Rightarrow> string" where
  "Number_toString n = (if n < 0 then ''-'' @ dec (nat (- n)) else dec (nat n))"

text \<open>
  \<^verbatim>\<open>ToString\<close>, as a template literal \<^verbatim>\<open>`${v}`\<close> applies it. An object inherits
  \<^verbatim>\<open>Object.prototype.toString\<close> unless it has an own property of that name; the own
  property is not callable (the model has no functions), and the conversion then raises
  a TypeError.
\<close>

fun ToString :: "jsval \<Rightarrow> js_error + string" where
  "ToString JUndefined = Inr ''undefined''"
| "ToString JNull = Inr ''null''"
| "ToString (JBool b) = Inr (if b then ''true'' else ''false'')"
| "ToString (JNum n) = Inr (Number_toString n)"
| "ToString (JStr s) = Inr s"
| "ToString (JObj fs) =
     (if map_of fs ''toString'' = None then Inr ''[object Object]'' else Inl TypeError)"

text \<open>The method call \<^verbatim>\<open>v.toString()\<close>: as \<open>ToString\<close>, but \<^verbatim>\<open>undefined\<close> and \<^verbatim>\<open>null\<close>
  have no properties.\<close>

fun call_toString :: "jsval \<Rightarrow> js_error + string" where
  "call_toString JUndefined = Inl TypeError"
| "call_toString JNull = Inl TypeError"
| "call_toString v = ToString v"

text \<open>\<^verbatim>\<open>Object.keys(v)\<close>: the own enumerable property names; those of a string are its
  indices.\<close>

fun Object_keys :: "jsval \<Rightarrow> js_error + string list" where
  "Object_keys JUndefined = Inl TypeError"
| "Object_keys JNull = Inl TypeError"
| "Object_keys (JBool b) = Inr []"
| "Object_keys (JNum n) = Inr []"
| "Object_keys (JStr s) = Inr (map dec [0..<length s])"
| "Object_keys (JObj fs) = Inr (map fst fs)"

text \<open>
  Property access \<^verbatim>\<open>v[name]\<close> and \<^verbatim>\<open>v.name\<close>. The source reads the properties
  \<^verbatim>\<open>useCache\<close>, \<^verbatim>\<open>cacheExpiry\<close>, \<^verbatim>\<open>_id\<close>, \<^verbatim>\<open>id\<close>, \<^verbatim>\<open>cache\<close> and the
  comma-joined own keys of the value itself; none of these names is a property of a
  built-in prototype, so a name that is not an own property reads as \<^verbatim>\<open>undefined\<close>.
\<close>

fun get_member :: "jsval \<Rightarrow> string \<Rightarrow> js_error + jsval" where
  "get_member JUndefined name = Inl TypeError"
| "get_member JNull name = Inl TypeError"
| "get_member (JBool b) name = Inr JUndefined"
| "get_member (JNum n) name = Inr JUndefined"
| "get_member (JStr s) name =
     (case map_of (zip (map dec [0..<length s]) s) name of
        Some c \<Rightarrow> Inr (JStr [c])
      | None \<Rightarrow> if name = ''length'' then Inr (JNum (int (length s))) else Inr JUndefined)"
| "get_member (JObj fs) name =
     (case map_of fs name of Some v \<Rightarrow> Inr v | None \<Rightarrow> Inr JUndefined)"

text \<open>An array of strings used as a property key is converted by
  \<^verbatim>\<open>Array.prototype.toString\<close>, which joins the elements with commas.\<close>

fun join_comma :: "string list \<Rightarrow> string" where
  "join_comma [] = []"
| "join_comma [x] = x"
| "join_comma (x # y # ys) = x @ '','' @ join_comma (y # ys)"

section \<open>Collaborators and configuration\<close>

text \<open>
  A storage backend is the default export of a backend module: an object with the
  methods \<^verbatim>\<open>get\<close>, \<^verbatim>\<open>set\<close> and \<^verbatim>\<open>fetch\<close>. Each method is given by what it answers
  to its arguments: a rejection or a value (a method the object lacks, as
  \<^verbatim>\<open>FnMongoService.set\<close>, answers \<open>Inl TypeError\<close>). \<^verbatim>\<open>set\<close> is called with the
  collection and one or two further arguments.
\<close>

record backend =
  backend_get :: "string \<Rightarrow> jsval \<Rightarrow> js_error + jsval"
  backend_set :: "string \<Rightarrow> jsval list \<Rightarrow> js_error + jsval"
  backend_fetch :: "string \<Rightarrow> jsval \<Rightarrow> js_error + jsval list"

text \<open>
  Everything outside the repository's own code: the environment variables, the module
  loader (\<open>import_default path\<close> is the default export of the module that
  \<^verbatim>\<open>await import(path)\<close> loads, or the rejection), the replies of the Redis cluster
  client, and the built-ins \<^verbatim>\<open>parseInt\<close> and \<^verbatim>\<open>JSON\<close>.
  \<open>parseInt_DEFAULT_CACHE_EXPIRY\<close> is \<^verbatim>\<open>parseInt(process.env.DEFAULT_CACHE_EXPIRY, 10)\<close>,
  with \<open>None\<close> for \<^verbatim>\<open>NaN\<close>. \<open>cluster_get key\<close> is the reply of \<^verbatim>\<open>client.get(key)\<close>
  (\<open>None\<close> for \<^verbatim>\<open>null\<close>); \<open>cluster_set key payload ex\<close> is that of
  \<^verbatim>\<open>client.set(key, payload, 'EX', n)\<close> when \<open>ex = Some n\<close> and of
  \<^verbatim>\<open>client.set(key, payload)\<close> when \<open>ex = None\<close>.
\<close>

record world =
  env_DATABASE_TYPE :: "string option"
  parseInt_DEFAULT_CACHE_EXPIRY :: "int option"
  import_default :: "string \<Rightarrow> js_error + backend"
  cluster_get :: "string \<Rightarrow> js_error + string option"
  cluster_set :: "string \<Rightarrow> jsval \<Rightarrow> jsval option \<Rightarrow> js_error + unit"
  JSON_parse :: "string \<Rightarrow> js_error + jsval"
  JSON_stringify :: "jsval \<Rightarrow> jsval"

text \<open>\<^verbatim>\<open>config.js\<close>: \<^verbatim>\<open>process.env.DATABASE_TYPE || 'firestore'\<close>; an unset variable is
  \<^verbatim>\<open>undefined\<close> and an empty one is the empty string, both falsy.\<close>

definition DATABASE_TYPE :: "world \<Rightarrow> string" where
  "DATABASE_TYPE w =
     (case env_DATABASE_TYPE w of
        None \<Rightarrow> ''firestore''
      | Some v \<Rightarrow> if v = [] then ''firestore'' else v)"

text \<open>\<^verbatim>\<open>parseInt(process.env.DEFAULT_CACHE_EXPIRY, 10) || 3600\<close>: \<^verbatim>\<open>NaN\<close> and \<open>0\<close> are
  falsy.\<close>

definition DEFAULT_CACHE_EXPIRY :: "world \<Rightarrow> int" where
  "DEFAULT_CACHE_EXPIRY w =
     (case parseInt_DEFAULT_CACHE_EXPIRY w of
        None \<Rightarrow> 3600
      | Some n \<Rightarrow> if n = 0 then 3600 else n)"

section \<open>State and observable calls\<close>

text \<open>
  Every call that leaves the facade is recorded, in order: the commands sent to the Redis
  cluster, the dynamic imports (loading a backend module constructs the backend object
  it exports) and the calls of backend methods. The facade's own state is its private
  field \<^verbatim>\<open>#dbInstance\<close>. An \<^verbatim>\<open>async\<close> method is modelled as run to completion;
  \<^verbatim>\<open>console\<close> output is not modelled, but the conversions to a string that the
  template literals of its log lines perform are, where they can raise.
\<close>

datatype event =
    RedisGET string
  | RedisSET string jsval "jsval option"
  | Import string
  | BackendGet string jsval
  | BackendSet string "jsval list"
  | BackendFetch string jsval

record state =
  dbInstance :: "backend option"
  trace :: "event list"

definition emit :: "event \<Rightarrow> state \<Rightarrow> state" where
  "emit ev s = s\<lparr>trace := trace s @ [ev]\<rparr>"

fun is_cache_event :: "event \<Rightarrow> bool" where
  "is_cache_event (RedisGET k) = True"
| "is_cache_event (RedisSET k v ex) = True"
| "is_cache_event ev = False"

fun is_backend_event :: "event \<Rightarrow> bool" where
  "is_backend_event (RedisGET k) = False"
| "is_backend_event (RedisSET k v ex) = False"
| "is_backend_event ev = True"

section \<open>The cache service (\<^verbatim>\<open>RedisService.js\<close>)\<close>

text \<open>
  \<^verbatim>\<open>connect()\<close> returns the cluster client that the constructor created at module load
  (a failed connection ends the process, after which no call is made), so \<^verbatim>\<open>get\<close>
  and \<^verbatim>\<open>set\<close> go straight to the client. Both catch blocks rethrow.
\<close>

definition FnRedisService_get :: "world \<Rightarrow> string \<Rightarrow> state \<Rightarrow> (js_error + jsval) \<times> state" where
  "FnRedisService_get w key s =
     (case cluster_get w key of
        Inl e \<Rightarrow> (Inl e, emit (RedisGET key) s)
      | Inr data \<Rightarrow>
          (case data of
             None \<Rightarrow> (Inr JNull, emit (RedisGET key) s)
           | Some d \<Rightarrow>
               if d \<noteq> [] then (JSON_parse w d, emit (RedisGET key) s)
               else (Inr JNull, emit (RedisGET key) s)))"

definition FnRedisService_set ::
  "world \<Rightarrow> string \<Rightarrow> jsval \<Rightarrow> jsval \<Rightarrow> state \<Rightarrow> (js_error + unit) \<times> state" where
  "FnRedisService_set w key data expiresInSeconds s =
     (let serializedData = JSON_stringify w data;
          ex = (if truthy expiresInSeconds then Some expiresInSeconds else None)
      in (cluster_set w key serializedData ex, emit (RedisSET key serializedData ex) s))"

section \<open>The facade (\<^verbatim>\<open>FnDB.js\<close>)\<close>

definition load :: "world \<Rightarrow> string \<Rightarrow> state \<Rightarrow> (js_error + unit) \<times> state" where
  "load w path s =
     (case import_default w path of
        Inl e \<Rightarrow> (Inl e, emit (Import path) s)
      | Inr serviceModule_default \<Rightarrow>
          (Inr (), (emit (Import path) s)\<lparr>dbInstance := Some serviceModule_default\<rparr>))"

definition initialize :: "world \<Rightarrow> state \<Rightarrow> (js_error + unit) \<times> state" where
  "initialize w s =
     (case dbInstance s of
        Some db \<Rightarrow> (Inr (), s)
      | None \<Rightarrow>
          if DATABASE_TYPE w = ''mongodb'' then load w ''../database/MONGO/FnMongo.js'' s
          else if DATABASE_TYPE w = ''firestore'' then load w ''../database/GCP/FnFirestore.js'' s
          else if DATABASE_TYPE w = ''redis'' then load w ''../database/CACHE/FnRedis.js'' s
          else if DATABASE_TYPE w = ''dynamodb'' then load w ''../database/AWS/FnDynamoDB.js'' s
          else (Inl (Error (''Unsupported database type: '' @ DATABASE_TYPE w)), s))"

text \<open>The default parameter and the destructuring of \<^verbatim>\<open>get\<close>:
  \<^verbatim>\<open>options = { useCache: false, cacheExpiry: DEFAULT_CACHE_EXPIRY }\<close> replaces an
  omitted (\<^verbatim>\<open>undefined\<close>) argument only.\<close>

definition destructure_options :: "world \<Rightarrow> jsval \<Rightarrow> js_error + jsval \<times> jsval" where
  "destructure_options w options =
     (let options' =
        (if options = JUndefined
         then JObj [(''useCache'', JBool False), (''cacheExpiry'', JNum (DEFAULT_CACHE_EXPIRY w))]
         else options)
      in case get_member options' ''useCache'' of
           Inl e \<Rightarrow> Inl e
         | Inr useCache \<Rightarrow>
             (case get_member options' ''cacheExpiry'' of
                Inl e \<Rightarrow> Inl e
              | Inr cacheExpiry \<Rightarrow> Inr (useCache, cacheExpiry)))"

text \<open>The template literal \<^verbatim>\<open>`${collection}:${v}`\<close>.\<close>

definition template_key :: "string \<Rightarrow> jsval \<Rightarrow> js_error + string" where
  "template_key collection v =
     (case ToString v of Inl e \<Rightarrow> Inl e | Inr str \<Rightarrow> Inr (collection @ '':'' @ str))"

text \<open>\<^verbatim>\<open>obj[Object.keys(obj)]\<close>: the array of keys, not one key, indexes the object.\<close>

definition index_by_keys :: "jsval \<Rightarrow> js_error + jsval" where
  "index_by_keys obj =
     (case Object_keys obj of
        Inl e \<Rightarrow> Inl e
      | Inr keyName \<Rightarrow> get_member obj (join_comma keyName))"

text \<open>The cache key of \<^verbatim>\<open>get\<close>; \<open>None\<close> is a \<^verbatim>\<open>cacheKey\<close> left \<^verbatim>\<open>undefined\<close>.\<close>

definition get_cacheKey :: "string \<Rightarrow> jsval \<Rightarrow> js_error + string option" where
  "get_cacheKey collection key =
     (if typeof key = ''string'' then
        (case template_key collection key of Inl e \<Rightarrow> Inl e | Inr ck \<Rightarrow> Inr (Some ck))
      else if typeof key = ''object'' then
        (case index_by_keys key of
           Inl e \<Rightarrow> Inl e
         | Inr v \<Rightarrow>
             (case template_key collection v of Inl e \<Rightarrow> Inl e | Inr ck \<Rightarrow> Inr (Some ck)))
      else Inr None)"

text \<open>\<^verbatim>\<open>useCache && cacheKey\<close>: the key to use when the conjunction is truthy.\<close>

definition cache_key_in_use :: "jsval \<Rightarrow> string option \<Rightarrow> string option" where
  "cache_key_in_use useCache cacheKey =
     (case cacheKey of
        None \<Rightarrow> None
      | Some ck \<Rightarrow> if truthy useCache \<and> ck \<noteq> [] then Some ck else None)"

text \<open>
  The second half of the \<^verbatim>\<open>try\<close> block of \<^verbatim>\<open>get\<close>: the backend read and the
  cache write. After the write the log line
  \<^verbatim>\<open>`Stored in cache with key: ${cacheKey} (expires in ${cacheExpiry}s)`\<close> converts
  \<^verbatim>\<open>cacheExpiry\<close> to a string.
\<close>

definition get_from_backend ::
  "world \<Rightarrow> string \<Rightarrow> jsval \<Rightarrow> jsval \<Rightarrow> string option \<Rightarrow> state \<Rightarrow> (js_error + jsval) \<times> state" where
  "get_from_backend w collection key cacheExpiry in_use s =
     (case initialize w s of
        (Inl e, s1) \<Rightarrow> (Inl e, s1)
      | (Inr u, s1) \<Rightarrow>
          (case dbInstance s1 of
             None \<Rightarrow> (Inl TypeError, s1)
           | Some db \<Rightarrow>
               (case backend_get db collection key of
                  Inl e \<Rightarrow> (Inl e, emit (BackendGet collection key) s1)
                | Inr doc \<Rightarrow>
                    (case (if truthy doc then in_use else None) of
                       None \<Rightarrow> (Inr doc, emit (BackendGet collection key) s1)
                     | Some ck \<Rightarrow>
                         (case FnRedisService_set w ck doc cacheExpiry
                                 (emit (BackendGet collection key) s1) of
                            (Inl e, s2) \<Rightarrow> (Inl e, s2)
                          | (Inr u', s2) \<Rightarrow>
                              (case ToString cacheExpiry of
                                 Inl e \<Rightarrow> (Inl e, s2)
                               | Inr seconds \<Rightarrow> (Inr doc, s2)))))))"

text \<open>The \<^verbatim>\<open>try\<close> block of \<^verbatim>\<open>get\<close>, given the key that \<^verbatim>\<open>useCache && cacheKey\<close>
  leaves in use.\<close>

definition get_try ::
  "world \<Rightarrow> string \<Rightarrow> jsval \<Rightarrow> jsval \<Rightarrow> string option \<Rightarrow> state \<Rightarrow> (js_error + jsval) \<times> state" where
  "get_try w collection key cacheExpiry in_use s =
     (case in_use of
        None \<Rightarrow> get_from_backend w collection key cacheExpiry None s
      | Some ck \<Rightarrow>
          (case FnRedisService_get w ck s of
             (Inl e, s1) \<Rightarrow> (Inl e, s1)
           | (Inr cachedData, s1) \<Rightarrow>
               if truthy cachedData then (Inr cachedData, s1)
               else get_from_backend w collection key cacheExpiry (Some ck) s1))"

text \<open>
  The \<^verbatim>\<open>catch\<close> block of \<^verbatim>\<open>get\<close>:
  \<^verbatim>\<open>console.error(`Error getting document with key: ${key}`, error); throw error;\<close>.
  The template literal converts the key to a string before the error is rethrown; when
  that conversion raises, its TypeError leaves the block in place of the caught error.
\<close>

definition catch_get :: "jsval \<Rightarrow> js_error \<Rightarrow> js_error" where
  "catch_get key error = (case ToString key of Inl e \<Rightarrow> e | Inr message \<Rightarrow> error)"

definition try_catch_get ::
  "jsval \<Rightarrow> (js_error + jsval) \<times> state \<Rightarrow> (js_error + jsval) \<times> state" where
  "try_catch_get key r =
     (case r of
        (Inl e, s1) \<Rightarrow> (Inl (catch_get key e), s1)
      | (Inr doc, s1) \<Rightarrow> (Inr doc, s1))"

definition FnDatabaseAdapter_get ::
  "world \<Rightarrow> string \<Rightarrow> jsval \<Rightarrow> jsval \<Rightarrow> state \<Rightarrow> (js_error + jsval) \<times> state" where
  "FnDatabaseAdapter_get w collection key options s =
     (case destructure_options w options of
        Inl e \<Rightarrow> (Inl e, s)
      | Inr (useCache, cacheExpiry) \<Rightarrow>
          (case get_cacheKey collection key of
             Inl e \<Rightarrow> (Inl e, s)
           | Inr cacheKey \<Rightarrow>
               try_catch_get key
                 (get_try w collection key cacheExpiry (cache_key_in_use useCache cacheKey) s)))"

text \<open>\<^verbatim>\<open>v && v[name]\<close>: the property of a truthy value, and the value itself when it is
  falsy.\<close>

definition and_member :: "jsval \<Rightarrow> string \<Rightarrow> js_error + jsval" where
  "and_member v name = (if truthy v then get_member v name else Inr v)"

text \<open>The cache key of \<^verbatim>\<open>set\<close> on a backend other than DynamoDB, from the document the
  backend returned and the caller's key or query.\<close>

definition set_cacheKey :: "string \<Rightarrow> jsval \<Rightarrow> jsval \<Rightarrow> js_error + string option" where
  "set_cacheKey collection keyOrQuery updatedDoc =
     (case and_member updatedDoc ''_id'' of
        Inl e \<Rightarrow> Inl e
      | Inr v_id \<Rightarrow>
          if truthy v_id then
            (case call_toString v_id of
               Inl e \<Rightarrow> Inl e
             | Inr str \<Rightarrow> Inr (Some (collection @ '':'' @ str)))
          else
            (case and_member updatedDoc ''id'' of
               Inl e \<Rightarrow> Inl e
             | Inr v \<Rightarrow>
                 if truthy v then
                   (case template_key collection v of
                      Inl e \<Rightarrow> Inl e
                    | Inr ck \<Rightarrow> Inr (Some ck))
                 else if typeof keyOrQuery = ''string'' then
                   (case template_key collection keyOrQuery of
                      Inl e \<Rightarrow> Inl e
                    | Inr ck \<Rightarrow> Inr (Some ck))
                 else Inr None))"

text \<open>The cache key of \<^verbatim>\<open>set\<close> on DynamoDB, from the item written.\<close>

definition set_cacheKey_dynamodb :: "string \<Rightarrow> jsval \<Rightarrow> js_error + string option" where
  "set_cacheKey_dynamodb collection data =
     (case index_by_keys data of
        Inl e \<Rightarrow> Inl e
      | Inr v \<Rightarrow>
          (case template_key collection v of Inl e \<Rightarrow> Inl e | Inr ck \<Rightarrow> Inr (Some ck)))"

text \<open>\<^verbatim>\<open>if (cacheKey) { await redisService.set(cacheKey, updatedDoc, DEFAULT_CACHE_EXPIRY); }
  return updatedDoc;\<close>\<close>

definition refresh_cache ::
  "world \<Rightarrow> string option \<Rightarrow> jsval \<Rightarrow> state \<Rightarrow> (js_error + jsval) \<times> state" where
  "refresh_cache w cacheKey updatedDoc s =
     (case cacheKey of
        None \<Rightarrow> (Inr updatedDoc, s)
      | Some ck \<Rightarrow>
          if ck \<noteq> [] then
            (case FnRedisService_set w ck updatedDoc (JNum (DEFAULT_CACHE_EXPIRY w)) s of
               (Inl e, s1) \<Rightarrow> (Inl e, s1)
             | (Inr u, s1) \<Rightarrow> (Inr updatedDoc, s1))
          else (Inr updatedDoc, s))"

definition FnDatabaseAdapter_set ::
  "world \<Rightarrow> string \<Rightarrow> jsval \<Rightarrow> jsval \<Rightarrow> state \<Rightarrow> (js_error + jsval) \<times> state" where
  "FnDatabaseAdapter_set w collection keyOrQuery data s =
     (case initialize w s of
        (Inl e, s1) \<Rightarrow> (Inl e, s1)
      | (Inr u, s1) \<Rightarrow>
          (case dbInstance s1 of
             None \<Rightarrow> (Inl TypeError, s1)
           | Some db \<Rightarrow>
               if DATABASE_TYPE w = ''dynamodb'' then
                 (case backend_set db collection [data] of
                    Inl e \<Rightarrow> (Inl e, emit (BackendSet collection [data]) s1)
                  | Inr updatedDoc \<Rightarrow>
                      (case set_cacheKey_dynamodb collection data of
                         Inl e \<Rightarrow> (Inl e, emit (BackendSet collection [data]) s1)
                       | Inr cacheKey \<Rightarrow>
                           refresh_cache w cacheKey updatedDoc
                             (emit (BackendSet collection [data]) s1)))
               else
                 (case backend_set db collection [keyOrQuery, data] of
                    Inl e \<Rightarrow> (Inl e, emit (BackendSet collection [keyOrQuery, data]) s1)
                  | Inr updatedDoc \<Rightarrow>
                      (case set_cacheKey collection keyOrQuery updatedDoc of
                         Inl e \<Rightarrow> (Inl e, emit (BackendSet collection [keyOrQuery, data]) s1)
                       | Inr cacheKey \<Rightarrow>
                           refresh_cache w cacheKey updatedDoc
                             (emit (BackendSet collection [keyOrQuery, data]) s1)))))"

text \<open>\<^verbatim>\<open>fetch(collection, filters = {})\<close>: the default replaces an omitted
  (\<^verbatim>\<open>undefined\<close>) argument.\<close>

definition FnDatabaseAdapter_fetch ::
  "world \<Rightarrow> string \<Rightarrow> jsval \<Rightarrow> state \<Rightarrow> (js_error + jsval list) \<times> state" where
  "FnDatabaseAdapter_fetch w collection filters s =
     (let filters' = (if filters = JUndefined then JObj [] else filters)
      in case initialize w s of
           (Inl e, s1) \<Rightarrow> (Inl e, s1)
         | (Inr u, s1) \<Rightarrow>
             (case dbInstance s1 of
                None \<Rightarrow> (Inl TypeError, s1)
              | Some db \<Rightarrow>
                  (backend_fetch db collection filters',
                   emit (BackendFetch collection filters') s1)))"

section \<open>The cache adaptor (\<^verbatim>\<open>FnCache.js\<close>) and the entry point (\<^verbatim>\<open>index.js\<close>)\<close>

text \<open>
  An \<^verbatim>\<open>import\<close> declaration is resolved when the module is linked, before any
  statement of the module runs: a name that the imported module does not export is a
  SyntaxError. \<^verbatim>\<open>config.js\<close> has three named exports and no default export.
\<close>

definition config_exports :: "string list" where
  "config_exports = [''DATABASE_TYPE'', ''DEFAULT_CACHE_EXPIRY'', ''serviceAccountPath'']"

definition resolve_import :: "string list \<Rightarrow> string \<Rightarrow> js_error + unit" where
  "resolve_import exports name = (if name \<in> set exports then Inr () else Inl SyntaxError)"

text \<open>The identifiers bound in the module \<^verbatim>\<open>FnCache.js\<close>: its import, its class and its
  constant. An identifier bound neither there nor on the global object is unresolvable,
  and reading it is a ReferenceError.\<close>

definition FnCache_scope :: "string list" where
  "FnCache_scope = [''fnConfig'', ''FnCache'', ''FnCacheInstance'']"

definition resolve_identifier :: "string list \<Rightarrow> string \<Rightarrow> js_error + unit" where
  "resolve_identifier scope name =
     (if name \<in> set scope then Inr () else Inl (ReferenceError name))"

text \<open>An instance of \<^verbatim>\<open>FnCache\<close>: its private field \<^verbatim>\<open>#cache\<close> is \<^verbatim>\<open>null\<close> or the
  pending import of the module at the given path.\<close>

record FnCache_object =
  cache_field :: "string option"

text \<open>
  \<^verbatim>\<open>new FnCache()\<close>, given the value bound to \<^verbatim>\<open>fnConfig\<close> and the static
  \<^verbatim>\<open>FnCache.instance\<close>. The last statement assigns to \<^verbatim>\<open>FnRedis.instance\<close>.
\<close>

definition FnCache_constructor :: "jsval \<Rightarrow> FnCache_object option \<Rightarrow> js_error + FnCache_object" where
  "FnCache_constructor fnConfig instance =
     (case instance of
        Some i \<Rightarrow> Inr i
      | None \<Rightarrow>
          (case get_member fnConfig ''cache'' of
             Inl e \<Rightarrow> Inl e
           | Inr c \<Rightarrow>
               (let this = \<lparr>cache_field =
                      (if c = JStr ''redis'' then Some ''../database/FnRedis.js'' else None)\<rparr>
                in case resolve_identifier FnCache_scope ''FnRedis'' of
                     Inl e \<Rightarrow> Inl e
                   | Inr u \<Rightarrow> Inr this)))"

text \<open>\<^verbatim>\<open>FnCache.getInstance()\<close>: the result and the static \<^verbatim>\<open>FnCache.instance\<close>
  afterwards.\<close>

definition FnCache_getInstance ::
  "jsval \<Rightarrow> FnCache_object option \<Rightarrow> (js_error + FnCache_object) \<times> FnCache_object option" where
  "FnCache_getInstance fnConfig instance =
     (case instance of
        Some i \<Rightarrow> (Inr i, instance)
      | None \<Rightarrow>
          (case FnCache_constructor fnConfig instance of
             Inl e \<Rightarrow> (Inl e, instance)
           | Inr i \<Rightarrow> (Inr i, Some i)))"

text \<open>
  Loading \<^verbatim>\<open>FnCache.js\<close>: link \<^verbatim>\<open>import fnConfig from './config.js'\<close>, then run
  \<^verbatim>\<open>const FnCacheInstance = FnCache.getInstance()\<close>; the result is the default
  export. The argument is the value \<^verbatim>\<open>fnConfig\<close> would be bound to.
\<close>

definition FnCache_module :: "jsval \<Rightarrow> js_error + FnCache_object" where
  "FnCache_module fnConfig =
     (case resolve_import config_exports ''default'' of
        Inl e \<Rightarrow> Inl e
      | Inr u \<Rightarrow> fst (FnCache_getInstance fnConfig None))"

text \<open>Loading \<^verbatim>\<open>index.js\<close>: it imports the default export of \<^verbatim>\<open>FnCache.js\<close> and
  calls it; the export is an object, not a function.\<close>

definition index_module :: "jsval \<Rightarrow> js_error + unit" where
  "index_module fnConfig =
     (case FnCache_module fnConfig of
        Inl e \<Rightarrow> Inl e
      | Inr FnCacheAdaptor \<Rightarrow> Inl TypeError)"

section \<open>The built-in \<^verbatim>\<open>JSON.stringify\<close>\<close>

text \<open>
  \<^verbatim>\<open>JSON.stringify\<close> on the values of the model, after the language specification:
  \<^verbatim>\<open>QuoteJSONString\<close> escapes the quote, the backslash and the control characters;
  a property whose value is \<^verbatim>\<open>undefined\<close> is left out of an object; the result for
  \<^verbatim>\<open>undefined\<close> itself is \<^verbatim>\<open>undefined\<close>.
\<close>

definition json_escape :: "char \<Rightarrow> string" where
  "json_escape c =
     (if c = CHR 0x22 then [CHR 0x5C, CHR 0x22]
      else if c = CHR 0x5C then [CHR 0x5C, CHR 0x5C]
      else if c = CHR 0x08 then [CHR 0x5C, CHR ''b'']
      else if c = CHR 0x09 then [CHR 0x5C, CHR ''t'']
      else if c = CHR 0x0A then [CHR 0x5C, CHR ''n'']
      else if c = CHR 0x0C then [CHR 0x5C, CHR ''f'']
      else if c = CHR 0x0D then [CHR 0x5C, CHR ''r'']
      else if (of_char c :: nat) < 32
        then [CHR 0x5C, CHR ''u'', CHR ''0'', CHR ''0'',
              ''0123456789abcdef'' ! (of_char c div 16),
              ''0123456789abcdef'' ! (of_char c mod 16)]
      else [c])"

definition QuoteJSONString :: "string \<Rightarrow> string" where
  "QuoteJSONString str = [CHR 0x22] @ concat (map json_escape str) @ [CHR 0x22]"

fun SerializeJSONProperty :: "jsval \<Rightarrow> string option"
  and SerializeJSONMembers :: "(string \<times> jsval) list \<Rightarrow> string list" where
  "SerializeJSONProperty JUndefined = None"
| "SerializeJSONProperty JNull = Some ''null''"
| "SerializeJSONProperty (JBool b) = Some (if b then ''true'' else ''false'')"
| "SerializeJSONProperty (JNum n) = Some (Number_toString n)"
| "SerializeJSONProperty (JStr str) = Some (QuoteJSONString str)"
| "SerializeJSONProperty (JObj fs) =
     Some (''{'' @ join_comma (SerializeJSONMembers fs) @ ''}'')"
| "SerializeJSONMembers [] = []"
| "SerializeJSONMembers ((P, v) # fs) =
     (case SerializeJSONProperty v of
        None \<Rightarrow> SerializeJSONMembers fs
      | Some strP \<Rightarrow> (QuoteJSONString P @ '':'' @ strP) # SerializeJSONMembers fs)"

definition JSON_stringify_builtin :: "jsval \<Rightarrow> jsval" where
  "JSON_stringify_builtin v =
     (case SerializeJSONProperty v of None \<Rightarrow> JUndefined | Some text \<Rightarrow> JStr text)"

section \<open>Example collaborators\<close>

definition example_doc :: jsval where
  "example_doc = JObj [(''id'', JStr ''u1''), (''name'', JStr ''A'')]"

text \<open>The JSON text of \<open>example_doc\<close>, as the cache stores it.\<close>

definition example_cached_text :: string where
  "example_cached_text = ''{\"id\":\"u1\",\"name\":\"A\"}''"

text \<open>
  \<^verbatim>\<open>JSON.parse\<close> on the texts that the example caches hold: the text of
  \<open>example_doc\<close> parses to it; the truncated text \<^verbatim>\<open>{oops\<close>, like everything else that
  this table does not list, is answered with a SyntaxError. The examples parse no
  other text.
\<close>

definition example_JSON_parse :: "string \<Rightarrow> js_error + jsval" where
  "example_JSON_parse text =
     (if text = example_cached_text then Inr example_doc else Inl SyntaxError)"

text \<open>A backend that holds \<open>example_doc\<close> under every key, answers a write with the
  last argument and finds nothing on a fetch.\<close>

definition example_backend :: backend where
  "example_backend =
     \<lparr>backend_get = (\<lambda>collection key. Inr example_doc),
      backend_set = (\<lambda>collection args. Inr (last args)),
      backend_fetch = (\<lambda>collection filters. Inr [])\<rparr>"

text \<open>A world with no environment variable set, every backend module loading, and an
  empty and healthy cache.\<close>

definition example_world :: world where
  "example_world =
     \<lparr>env_DATABASE_TYPE = None,
      parseInt_DEFAULT_CACHE_EXPIRY = None,
      import_default = (\<lambda>path. Inr example_backend),
      cluster_get = (\<lambda>key. Inr None),
      cluster_set = (\<lambda>key payload ex. Inr ()),
      JSON_parse = example_JSON_parse,
      JSON_stringify = JSON_stringify_builtin\<rparr>"

text \<open>The same world with the cache cluster rejecting every command.\<close>

definition cache_down_world :: world where
  "cache_down_world =
     example_world
       \<lparr>cluster_get := (\<lambda>key. Inl (Error ''ECONNREFUSED'')),
        cluster_set := (\<lambda>key payload ex. Inl (Error ''ECONNREFUSED''))\<rparr>"

text \<open>The same world with the text of \<open>example_doc\<close> cached under every key.\<close>

definition cache_hit_world :: world where
  "cache_hit_world = example_world\<lparr>cluster_get := (\<lambda>key. Inr (Some example_cached_text))\<rparr>"

text \<open>The same world with a truncated text cached under every key.\<close>

definition cache_corrupt_world :: world where
  "cache_corrupt_world = example_world\<lparr>cluster_get := (\<lambda>key. Inr (Some ''{oops''))\<rparr>"

text \<open>The same world configured for DynamoDB.\<close>

definition dynamodb_world :: world where
  "dynamodb_world = example_world\<lparr>env_DATABASE_TYPE := Some ''dynamodb''\<rparr>"

definition initial_state :: state where
  "initial_state = \<lparr>dbInstance = None, trace = []\<rparr>"

definition ready_state :: state where
  "ready_state = \<lparr>dbInstance = Some example_backend, trace = []\<rparr>"

text \<open>Worlds whose \<^verbatim>\<open>DATABASE_TYPE\<close> names no backend.\<close>

definition unsupported_world :: world where
  "unsupported_world = example_world\<lparr>env_DATABASE_TYPE := Some ''unsupported-type''\<rparr>"

definition unsupported_cache_hit_world :: world where
  "unsupported_cache_hit_world =
     cache_hit_world\<lparr>env_DATABASE_TYPE := Some ''unsupported-type''\<rparr>"

text \<open>Options that switch the cache on and say nothing else.\<close>

definition useCache_only :: jsval where
  "useCache_only = JObj [(''useCache'', JBool True)]"

text \<open>A key whose conversion to a string raises: its own property \<^verbatim>\<open>toString\<close> is
  not a function.\<close>

definition unprintable_key :: jsval where
  "unprintable_key = JObj [(''toString'', JStr ''x'')]"

section \<open>Basic facts\<close>

lemma initialize_ready: "dbInstance s = Some db \<Longrightarrow> initialize w s = (Inr (), s)"
  by (simp add: initialize_def)

lemma load_trace: "trace (snd (load w path s)) = trace s @ [Import path]"
  by (simp add: load_def emit_def split: sum.splits)

lemma initialize_trace_prefix: "\<exists>rest. trace (snd (initialize w s)) = trace s @ rest"
  by (simp add: initialize_def load_trace split: option.splits)

lemma load_cache_events:
  "filter is_cache_event (trace (snd (load w path s))) = filter is_cache_event (trace s)"
  by (simp add: load_trace)

lemma initialize_cache_events:
  "filter is_cache_event (trace (snd (initialize w s))) = filter is_cache_event (trace s)"
  by (simp add: initialize_def load_cache_events split: option.splits)

lemma initialize_unsupported:
  assumes "DATABASE_TYPE w \<notin> {''mongodb'', ''firestore'', ''redis'', ''dynamodb''}"
    and "dbInstance s = None"
  shows "initialize w s = (Inl (Error (''Unsupported database type: '' @ DATABASE_TYPE w)), s)"
  using assms by (simp add: initialize_def)

lemma DEFAULT_CACHE_EXPIRY_nonzero: "DEFAULT_CACHE_EXPIRY w \<noteq> 0"
  by (simp add: DEFAULT_CACHE_EXPIRY_def split: option.splits)

lemma template_key_nonempty: "template_key collection v = Inr ck \<Longrightarrow> ck \<noteq> []"
  by (auto simp add: template_key_def split: sum.splits)

lemma get_cacheKey_nonempty: "get_cacheKey collection key = Inr (Some ck) \<Longrightarrow> ck \<noteq> []"
  by (auto simp add: get_cacheKey_def split: if_splits sum.splits dest: template_key_nonempty)

lemma set_cacheKey_nonempty:
  "set_cacheKey collection keyOrQuery updatedDoc = Inr (Some ck) \<Longrightarrow> ck \<noteq> []"
  by (auto simp add: set_cacheKey_def split: if_splits sum.splits dest: template_key_nonempty)

lemma set_cacheKey_dynamodb_nonempty:
  "set_cacheKey_dynamodb collection data = Inr (Some ck) \<Longrightarrow> ck \<noteq> []"
  by (auto simp add: set_cacheKey_dynamodb_def split: sum.splits dest: template_key_nonempty)

text \<open>The cache service always sends its command, whatever the reply.\<close>

lemma FnRedisService_get_state: "snd (FnRedisService_get w key s) = emit (RedisGET key) s"
  by (simp add: FnRedisService_get_def split: sum.splits option.splits)

lemma case_FnRedisService_get:
  "(case FnRedisService_get w key s of (r, s1) \<Rightarrow> F r s1) =
     F (fst (FnRedisService_get w key s)) (emit (RedisGET key) s)"
  by (simp add: case_prod_unfold FnRedisService_get_state)

lemma FnRedisService_set_unfold:
  "FnRedisService_set w key data ex s =
     (cluster_set w key (JSON_stringify w data) (if truthy ex then Some ex else None),
      emit (RedisSET key (JSON_stringify w data) (if truthy ex then Some ex else None)) s)"
  by (simp add: FnRedisService_set_def Let_def)

lemma DATABASE_TYPE_empty: "env_DATABASE_TYPE w = Some [] \<Longrightarrow> DATABASE_TYPE w = ''firestore''"
  by (simp add: DATABASE_TYPE_def)

text \<open>\<^verbatim>\<open>v && v[name]\<close> never raises: a truthy value is neither \<^verbatim>\<open>undefined\<close> nor
  \<^verbatim>\<open>null\<close>.\<close>

lemma and_member_total: "\<exists>x. and_member v name = Inr x"
  by (cases v) (simp_all add: and_member_def split: option.splits)

lemma catch_get_printable: "ToString key = Inr message \<Longrightarrow> catch_get key e = e"
  by (simp add: catch_get_def)

lemma try_catch_get_string [simp]: "try_catch_get (JStr k) r = r"
  by (cases r) (simp add: try_catch_get_def catch_get_def split: sum.splits)

lemma try_catch_get_number [simp]: "try_catch_get (JNum n) r = r"
  by (cases r) (simp add: try_catch_get_def catch_get_def split: sum.splits)

lemma try_catch_get_state [simp]: "snd (try_catch_get key r) = snd r"
  by (cases r) (simp add: try_catch_get_def split: sum.splits)

text \<open>\<^verbatim>\<open>get\<close> with the state after the cache lookup made explicit.\<close>

lemma get_try_unfold:
  "get_try w collection key cacheExpiry in_use s =
     (case in_use of
        None \<Rightarrow> get_from_backend w collection key cacheExpiry None s
      | Some ck \<Rightarrow>
          (case fst (FnRedisService_get w ck s) of
             Inl e \<Rightarrow> (Inl e, emit (RedisGET ck) s)
           | Inr cachedData \<Rightarrow>
               if truthy cachedData then (Inr cachedData, emit (RedisGET ck) s)
               else get_from_backend w collection key cacheExpiry (Some ck)
                      (emit (RedisGET ck) s)))"
  by (simp add: get_try_def case_FnRedisService_get
        cong: sum.case_cong option.case_cong prod.case_cong)

lemma get_unfold:
  "FnDatabaseAdapter_get w collection key options s =
     (case destructure_options w options of
        Inl e \<Rightarrow> (Inl e, s)
      | Inr (useCache, cacheExpiry) \<Rightarrow>
          (case get_cacheKey collection key of
             Inl e \<Rightarrow> (Inl e, s)
           | Inr cacheKey \<Rightarrow>
               (case cache_key_in_use useCache cacheKey of
                  None \<Rightarrow>
                    try_catch_get key (get_from_backend w collection key cacheExpiry None s)
                | Some ck \<Rightarrow>
                    (case fst (FnRedisService_get w ck s) of
                       Inl e \<Rightarrow> (Inl (catch_get key e), emit (RedisGET ck) s)
                     | Inr cachedData \<Rightarrow>
                         if truthy cachedData then (Inr cachedData, emit (RedisGET ck) s)
                         else try_catch_get key
                                (get_from_backend w collection key cacheExpiry (Some ck)
                                   (emit (RedisGET ck) s))))))"
  by (simp add: FnDatabaseAdapter_get_def get_try_unfold try_catch_get_def
        split: sum.split option.split prod.split)

lemma get_from_backend_unsupported:
  assumes "DATABASE_TYPE w \<notin> {''mongodb'', ''firestore'', ''redis'', ''dynamodb''}"
    and "dbInstance s = None"
  shows "get_from_backend w collection key cacheExpiry in_use s =
           (Inl (Error (''Unsupported database type: '' @ DATABASE_TYPE w)), s)"
  by (simp add: get_from_backend_def initialize_unsupported [OF assms])

lemma get_from_backend_trace_prefix:
  "\<exists>rest. trace (snd (get_from_backend w collection key ce in_use s)) = trace s @ rest"
proof -
  obtain r s1 where i: "initialize w s = (r, s1)" by (cases "initialize w s")
  obtain rest where p: "trace s1 = trace s @ rest"
    using initialize_trace_prefix [of w s] i by auto
  show ?thesis
    using i p
    by (auto simp add: get_from_backend_def FnRedisService_set_unfold emit_def
          split: sum.splits option.splits)
qed

text \<open>With the backend resolved and a truthy document read, the backend read is
  followed by the cache write under the key in use.\<close>

lemma get_from_backend_populates:
  assumes "initialize w s = (Inr (), s1)"
    and "dbInstance s1 = Some db"
    and "backend_get db collection key = Inr doc"
    and "truthy doc"
  shows "get_from_backend w collection key ce (Some ck) s =
           (case cluster_set w ck (JSON_stringify w doc)
                   (if truthy ce then Some ce else None) of
              Inl e \<Rightarrow> Inl e
            | Inr u \<Rightarrow> (case ToString ce of Inl e \<Rightarrow> Inl e | Inr seconds \<Rightarrow> Inr doc),
            emit (RedisSET ck (JSON_stringify w doc) (if truthy ce then Some ce else None))
              (emit (BackendGet collection key) s1))"
  using assms
  by (simp add: get_from_backend_def FnRedisService_set_unfold split: sum.splits)

lemma get_from_backend_no_cache_events:
  "filter is_cache_event (trace (snd (get_from_backend w collection key ce None s))) =
     filter is_cache_event (trace s)"
proof -
  obtain r s1 where i: "initialize w s = (r, s1)" by (cases "initialize w s")
  have "filter is_cache_event (trace s1) = filter is_cache_event (trace s)"
    using initialize_cache_events [of w s] i by simp
  then show ?thesis
    using i
    by (auto simp add: get_from_backend_def emit_def split: sum.splits option.splits)
qed

text \<open>A key with a single field does yield the value of that field.\<close>

lemma get_cacheKey_single_field:
  "get_cacheKey collection (JObj [(field, v)]) =
     (case template_key collection v of Inl e \<Rightarrow> Inl e | Inr ck \<Rightarrow> Inr (Some ck))"
  by (simp add: get_cacheKey_def index_by_keys_def)

text \<open>Evaluation of the example worlds.\<close>

lemma example_world_simps:
  "DATABASE_TYPE example_world = ''firestore''"
  "DEFAULT_CACHE_EXPIRY example_world = 3600"
  "DATABASE_TYPE cache_down_world = ''firestore''"
  "DEFAULT_CACHE_EXPIRY cache_down_world = 3600"
  "DATABASE_TYPE cache_corrupt_world = ''firestore''"
  "DATABASE_TYPE dynamodb_world = ''dynamodb''"
  "DEFAULT_CACHE_EXPIRY dynamodb_world = 3600"
  "DATABASE_TYPE unsupported_world = ''unsupported-type''"
  "DATABASE_TYPE unsupported_cache_hit_world = ''unsupported-type''"
  by (simp_all add: DATABASE_TYPE_def DEFAULT_CACHE_EXPIRY_def example_world_def
        cache_down_world_def cache_hit_world_def cache_corrupt_world_def dynamodb_world_def
        unsupported_world_def unsupported_cache_hit_world_def)

lemma example_doc_text: "JSON_stringify_builtin example_doc = JStr example_cached_text"
  by (simp add: JSON_stringify_builtin_def example_doc_def example_cached_text_def
        QuoteJSONString_def json_escape_def)

lemma useCache_only_destructured:
  "destructure_options w useCache_only = Inr (JBool True, JUndefined)"
  by (simp add: destructure_options_def useCache_only_def)

lemma users_u1_cacheKey: "get_cacheKey ''users'' (JStr ''u1'') = Inr (Some ''users:u1'')"
  by (simp add: get_cacheKey_def template_key_def)

text \<open>The whole read of the example: a miss, the backend's document, the cache write.\<close>

lemma example_read:
  "FnDatabaseAdapter_get example_world ''users'' (JStr ''u1'') useCache_only ready_state =
     (Inr example_doc,
      \<lparr>dbInstance = Some example_backend,
       trace = [RedisGET ''users:u1'', BackendGet ''users'' (JStr ''u1''),
                RedisSET ''users:u1'' (JStr example_cached_text) None]\<rparr>)"
proof -
  have b: "backend_get example_backend ''users'' (JStr ''u1'') = Inr example_doc"
    by (simp add: example_backend_def)
  have t: "truthy example_doc" by (simp add: example_doc_def)
  have i: "initialize example_world (emit (RedisGET ''users:u1'') ready_state) =
             (Inr (), emit (RedisGET ''users:u1'') ready_state)"
    by (rule initialize_ready [of _ example_backend]) (simp add: emit_def ready_state_def)
  have d: "dbInstance (emit (RedisGET ''users:u1'') ready_state) = Some example_backend"
    by (simp add: emit_def ready_state_def)
  have m: "fst (FnRedisService_get example_world ''users:u1'' ready_state) = Inr JNull"
    by (simp add: FnRedisService_get_def example_world_def)
  have c: "cluster_set example_world = (\<lambda>key payload ex. Inr ())"
    "JSON_stringify example_world = JSON_stringify_builtin"
    by (simp_all add: example_world_def)
  show ?thesis
    by (simp add: get_unfold useCache_only_destructured users_u1_cacheKey cache_key_in_use_def
          m get_from_backend_populates [OF i d b t] c example_doc_text)
       (simp add: emit_def ready_state_def)
qed

section \<open>Configuration default\<close>

text \<open>
  C7 (as amended). When the environment variable \<^verbatim>\<open>DATABASE_TYPE\<close> is unset, the
  configured backend type is \<^verbatim>\<open>'firestore'\<close>: the default backend is the Firestore
  backend, which the first initialization imports from \<^verbatim>\<open>GCP/FnFirestore.js\<close>, and not
  the DynamoDB backend.
\<close>

theorem default_database_type:
  assumes "env_DATABASE_TYPE w = None"
  shows "DATABASE_TYPE w = ''firestore'' \<and>
         (if dbInstance s = None
          then initialize w s = load w ''../database/GCP/FnFirestore.js'' s
          else initialize w s = (Inr (), s))"
  using assms by (auto simp add: DATABASE_TYPE_def initialize_def)

theorem default_database_type_witness:
  "env_DATABASE_TYPE example_world = None \<and>
   DATABASE_TYPE example_world = ''firestore'' \<and>
   initialize example_world initial_state =
     (Inr (), \<lparr>dbInstance = Some example_backend,
              trace = [Import ''../database/GCP/FnFirestore.js'']\<rparr>)"
proof -
  have h: "env_DATABASE_TYPE example_world = None" by (simp add: example_world_def)
  from default_database_type [OF h, of initial_state]
  show ?thesis using h
    by (simp add: initial_state_def load_def emit_def example_world_def)
qed

text \<open>C7 as stated fails: with the variable unset the type is not \<^verbatim>\<open>'dynamodb'\<close>.\<close>

theorem default_database_type_counterexample:
  "env_DATABASE_TYPE example_world = None \<and> DATABASE_TYPE example_world \<noteq> ''dynamodb''"
  by (simp add: example_world_def DATABASE_TYPE_def)

section \<open>Cache key of a composite key\<close>

text \<open>
  C4 (the code at a failing input). For the two-field key
  \<^verbatim>\<open>{customerId: 'c1', orderId: 'o9'}\<close> the cache key derived by \<^verbatim>\<open>get\<close> is
  \<^verbatim>\<open>'orders:undefined'\<close>: it is the value of no field of the key, and another order of
  another customer receives the same cache key.
\<close>

theorem composite_key_two_fields:
  "get_cacheKey ''orders'' (JObj [(''customerId'', JStr ''c1''), (''orderId'', JStr ''o9'')])
     = Inr (Some ''orders:undefined'') \<and>
   get_cacheKey ''orders'' (JObj [(''customerId'', JStr ''c2''), (''orderId'', JStr ''o7'')])
     = Inr (Some ''orders:undefined'')"
  by (simp add: get_cacheKey_def index_by_keys_def template_key_def)

section \<open>Fetch\<close>



section \<open>The cache adaptor cannot be loaded\<close>

text \<open>
  C10 (as amended). Loading \<^verbatim>\<open>FnCache.js\<close>, and hence \<^verbatim>\<open>index.js\<close>, always fails,
  and \<^verbatim>\<open>FnCache.getInstance\<close> never yields an instance. The module fails when it is
  linked, with a SyntaxError, because it imports a default export that \<^verbatim>\<open>config.js\<close>
  does not have; no statement of it runs. Whenever the constructor does run with
  \<^verbatim>\<open>FnCache.instance\<close> unset, it raises for every value of \<^verbatim>\<open>fnConfig\<close>: a TypeError
  at \<^verbatim>\<open>fnConfig.cache\<close> when \<^verbatim>\<open>fnConfig\<close> is \<^verbatim>\<open>undefined\<close> or \<^verbatim>\<open>null\<close>, and
  otherwise the ReferenceError at \<^verbatim>\<open>FnRedis.instance\<close>; \<^verbatim>\<open>FnCache.instance\<close> stays
  unset.
\<close>

theorem FnCache_never_constructed:
  "FnCache_constructor fnConfig None =
     Inl (if fnConfig = JUndefined \<or> fnConfig = JNull then TypeError
          else ReferenceError ''FnRedis'') \<and>
   FnCache_getInstance fnConfig None =
     (Inl (if fnConfig = JUndefined \<or> fnConfig = JNull then TypeError
           else ReferenceError ''FnRedis''), None) \<and>
   FnCache_module fnConfig = Inl SyntaxError \<and>
   index_module fnConfig = Inl SyntaxError"
proof -
  have c: "FnCache_constructor fnConfig None =
     Inl (if fnConfig = JUndefined \<or> fnConfig = JNull then TypeError
          else ReferenceError ''FnRedis'')"
    by (cases fnConfig)
       (simp_all add: FnCache_constructor_def resolve_identifier_def FnCache_scope_def
          split: option.splits)
  have m: "FnCache_module fnConfig = Inl SyntaxError"
    by (simp add: FnCache_module_def resolve_import_def config_exports_def)
  show ?thesis using c m by (simp add: FnCache_getInstance_def index_module_def)
qed

text \<open>C10 as stated fails: what loading the module throws is not the ReferenceError, and
  with \<^verbatim>\<open>fnConfig\<close> undefined neither is what the constructor throws.\<close>

theorem FnCache_module_counterexample:
  "FnCache_module (JObj []) \<noteq> Inl (ReferenceError ''FnRedis'') \<and>
   index_module (JObj []) \<noteq> Inl (ReferenceError ''FnRedis'') \<and>
   FnCache_constructor JUndefined None \<noteq> Inl (ReferenceError ''FnRedis'')"
  by (simp add: FnCache_module_def index_module_def resolve_import_def config_exports_def
        FnCache_constructor_def)

section \<open>Cache failure during a read\<close>

lemma unprintable_key_cacheKey:
  "get_cacheKey ''orders'' unprintable_key = Inr (Some ''orders:x'')"
  by (simp add: get_cacheKey_def index_by_keys_def template_key_def unprintable_key_def)

text \<open>
  C1 (as amended). For every \<^verbatim>\<open>get\<close> with a truthy \<^verbatim>\<open>useCache\<close> and a derived cache
  key, a failure of the cache lookup is raised to the caller and never becomes a miss:
  whether the cluster rejects the command or the stored text does not parse,
  \<^verbatim>\<open>FnRedisService.get\<close> rethrows, \<^verbatim>\<open>get\<close> fails, and after the lookup nothing more
  is done, so the backend is not consulted. The error raised is the cache's error,
  unless the log line of the catch block cannot convert the key to a string, in which
  case it is that TypeError.
\<close>

theorem cache_lookup_failure_propagates:
  assumes "destructure_options w options = Inr (useCache, cacheExpiry)"
    and "truthy useCache"
    and "get_cacheKey collection key = Inr (Some ck)"
    and "cluster_get w ck = Inl e \<or>
         (cluster_get w ck = Inr (Some d) \<and> d \<noteq> [] \<and> JSON_parse w d = Inl e)"
  shows "FnDatabaseAdapter_get w collection key options s =
           (Inl (case ToString key of Inl e' \<Rightarrow> e' | Inr message \<Rightarrow> e),
            emit (RedisGET ck) s)"
proof -
  have ne: "ck \<noteq> []" using assms(3) by (rule get_cacheKey_nonempty)
  have u: "cache_key_in_use useCache (Some ck) = Some ck"
    using assms(2) ne by (simp add: cache_key_in_use_def)
  have r: "fst (FnRedisService_get w ck s) = Inl e"
    using assms(4) by (auto simp add: FnRedisService_get_def)
  show ?thesis
    by (simp add: get_unfold assms(1) assms(3) u r catch_get_def)
qed

theorem cache_lookup_failure_propagates_witness:
  "destructure_options cache_down_world useCache_only = Inr (JBool True, JUndefined) \<and>
   truthy (JBool True) \<and>
   get_cacheKey ''users'' (JStr ''u1'') = Inr (Some ''users:u1'') \<and>
   cluster_get cache_down_world ''users:u1'' = Inl (Error ''ECONNREFUSED'') \<and>
   FnDatabaseAdapter_get cache_down_world ''users'' (JStr ''u1'') useCache_only ready_state =
     (Inl (Error ''ECONNREFUSED''), emit (RedisGET ''users:u1'') ready_state) \<and>
   cluster_get cache_corrupt_world ''users:u1'' = Inr (Some ''{oops'') \<and>
   JSON_parse cache_corrupt_world ''{oops'' = Inl SyntaxError \<and>
   FnDatabaseAdapter_get cache_corrupt_world ''users'' (JStr ''u1'') useCache_only ready_state =
     (Inl SyntaxError, emit (RedisGET ''users:u1'') ready_state) \<and>
   get_cacheKey ''orders'' unprintable_key = Inr (Some ''orders:x'') \<and>
   cluster_get cache_down_world ''orders:x'' = Inl (Error ''ECONNREFUSED'') \<and>
   FnDatabaseAdapter_get cache_down_world ''orders'' unprintable_key useCache_only ready_state =
     (Inl TypeError, emit (RedisGET ''orders:x'') ready_state)"
proof -
  have h1: "destructure_options w useCache_only = Inr (JBool True, JUndefined)" for w
    by (rule useCache_only_destructured)
  have h2: "truthy (JBool True)" by simp
  have h3: "get_cacheKey ''users'' (JStr ''u1'') = Inr (Some ''users:u1'')"
    by (rule users_u1_cacheKey)
  have d: "cluster_get cache_down_world k = Inl (Error ''ECONNREFUSED'')" for k
    by (simp add: cache_down_world_def example_world_def)
  have c: "cluster_get cache_corrupt_world ''users:u1'' = Inr (Some ''{oops'')"
    "JSON_parse cache_corrupt_world ''{oops'' = Inl SyntaxError"
    by (simp_all add: cache_corrupt_world_def example_world_def example_JSON_parse_def
          example_cached_text_def)
  have h4a: "cluster_get cache_down_world ''users:u1'' = Inl (Error ''ECONNREFUSED'') \<or>
         (cluster_get cache_down_world ''users:u1'' = Inr (Some []) \<and> [] \<noteq> [] \<and>
          JSON_parse cache_down_world [] = Inl (Error ''ECONNREFUSED''))"
    using d by simp
  have h4b: "cluster_get cache_corrupt_world ''users:u1'' = Inl SyntaxError \<or>
         (cluster_get cache_corrupt_world ''users:u1'' = Inr (Some ''{oops'') \<and> ''{oops'' \<noteq> [] \<and>
          JSON_parse cache_corrupt_world ''{oops'' = Inl SyntaxError)"
    using c by simp
  have h4c: "cluster_get cache_down_world ''orders:x'' = Inl (Error ''ECONNREFUSED'') \<or>
         (cluster_get cache_down_world ''orders:x'' = Inr (Some []) \<and> [] \<noteq> [] \<and>
          JSON_parse cache_down_world [] = Inl (Error ''ECONNREFUSED''))"
    using d by simp
  from cache_lookup_failure_propagates [OF h1 h2 h3 h4a, of ready_state]
    cache_lookup_failure_propagates [OF h1 h2 h3 h4b, of ready_state]
    cache_lookup_failure_propagates [OF h1 h2 unprintable_key_cacheKey h4c, of ready_state]
  show ?thesis using h1 h2 h3 d c unprintable_key_cacheKey
    by (simp add: unprintable_key_def)
qed

text \<open>C1 as stated fails: the backend holds the document, the cache is down, and
  \<^verbatim>\<open>get\<close> with \<^verbatim>\<open>useCache: true\<close> raises the cache's error without a backend call.\<close>

theorem cache_lookup_failure_counterexample:
  "backend_get example_backend ''users'' (JStr ''u1'') = Inr example_doc \<and>
   FnDatabaseAdapter_get cache_down_world ''users'' (JStr ''u1'') useCache_only ready_state =
     (Inl (Error ''ECONNREFUSED''),
      \<lparr>dbInstance = Some example_backend, trace = [RedisGET ''users:u1'']\<rparr>)"
  by (simp add: FnDatabaseAdapter_get_def get_try_def try_catch_get_def catch_get_def
        useCache_only_destructured users_u1_cacheKey
        cache_key_in_use_def FnRedisService_get_def cache_down_world_def example_world_def
        example_backend_def emit_def ready_state_def)

section \<open>Unsupported database type\<close>

text \<open>
  C6 (as amended). When \<^verbatim>\<open>DATABASE_TYPE\<close> is none of the four supported values and no
  backend is set, every \<^verbatim>\<open>set\<close> and every \<^verbatim>\<open>fetch\<close> fails with
  \<^verbatim>\<open>Error('Unsupported database type: ' + DATABASE_TYPE)\<close> and changes nothing.
  \<^verbatim>\<open>get\<close> fails whenever it reaches the backend, with the same error, or with the
  TypeError of the catch block's log line when the key cannot be converted to a string.
  \<^verbatim>\<open>get\<close> does not reach the backend when it failed before (on its options, its key
  or the cache lookup) or when the cache answered, in which case it returns the cached
  value. In no case is a backend module imported or a backend method called, and
  \<^verbatim>\<open>#dbInstance\<close> stays unset.
\<close>

theorem unsupported_database_type:
  assumes "DATABASE_TYPE w \<notin> {''mongodb'', ''firestore'', ''redis'', ''dynamodb''}"
    and "dbInstance s = None"
  shows "FnDatabaseAdapter_set w collection keyOrQuery data s =
           (Inl (Error (''Unsupported database type: '' @ DATABASE_TYPE w)), s) \<and>
         FnDatabaseAdapter_fetch w collection filters s =
           (Inl (Error (''Unsupported database type: '' @ DATABASE_TYPE w)), s) \<and>
         FnDatabaseAdapter_get w collection key options s =
           (case destructure_options w options of
              Inl e \<Rightarrow> (Inl e, s)
            | Inr (useCache, cacheExpiry) \<Rightarrow>
                (case get_cacheKey collection key of
                   Inl e \<Rightarrow> (Inl e, s)
                 | Inr cacheKey \<Rightarrow>
                     (case cache_key_in_use useCache cacheKey of
                        None \<Rightarrow>
                          (Inl (case ToString key of
                                  Inl e' \<Rightarrow> e'
                                | Inr message \<Rightarrow>
                                    Error (''Unsupported database type: '' @ DATABASE_TYPE w)),
                           s)
                      | Some ck \<Rightarrow>
                          (case fst (FnRedisService_get w ck s) of
                             Inl e \<Rightarrow>
                               (Inl (case ToString key of Inl e' \<Rightarrow> e' | Inr message \<Rightarrow> e),
                                emit (RedisGET ck) s)
                           | Inr cachedData \<Rightarrow>
                               if truthy cachedData then (Inr cachedData, emit (RedisGET ck) s)
                               else (Inl (case ToString key of
                                            Inl e' \<Rightarrow> e'
                                          | Inr message \<Rightarrow>
                                              Error (''Unsupported database type: '' @
                                                     DATABASE_TYPE w)),
                                     emit (RedisGET ck) s))))) \<and>
         dbInstance (snd (FnDatabaseAdapter_get w collection key options s)) = None \<and>
         filter is_backend_event (trace (snd (FnDatabaseAdapter_get w collection key options s))) =
           filter is_backend_event (trace s)"
proof -
  let ?U = "Error (''Unsupported database type: '' @ DATABASE_TYPE w)"
  have i: "initialize w s = (Inl ?U, s)" by (rule initialize_unsupported [OF assms])
  have s: "FnDatabaseAdapter_set w collection keyOrQuery data s = (Inl ?U, s)"
    by (simp add: FnDatabaseAdapter_set_def i)
  have f: "FnDatabaseAdapter_fetch w collection filters s = (Inl ?U, s)"
    by (simp add: FnDatabaseAdapter_fetch_def i)
  have b: "\<And>ck in_use. get_from_backend w collection key ce in_use (emit (RedisGET ck) s) =
             (Inl ?U, emit (RedisGET ck) s)" for ce
    by (rule get_from_backend_unsupported) (use assms in \<open>simp_all add: emit_def\<close>)
  have g: "FnDatabaseAdapter_get w collection key options s =
           (case destructure_options w options of
              Inl e \<Rightarrow> (Inl e, s)
            | Inr (useCache, cacheExpiry) \<Rightarrow>
                (case get_cacheKey collection key of
                   Inl e \<Rightarrow> (Inl e, s)
                 | Inr cacheKey \<Rightarrow>
                     (case cache_key_in_use useCache cacheKey of
                        None \<Rightarrow> (Inl (case ToString key of Inl e' \<Rightarrow> e' | Inr message \<Rightarrow> ?U), s)
                      | Some ck \<Rightarrow>
                          (case fst (FnRedisService_get w ck s) of
                             Inl e \<Rightarrow>
                               (Inl (case ToString key of Inl e' \<Rightarrow> e' | Inr message \<Rightarrow> e),
                                emit (RedisGET ck) s)
                           | Inr cachedData \<Rightarrow>
                               if truthy cachedData then (Inr cachedData, emit (RedisGET ck) s)
                               else (Inl (case ToString key of Inl e' \<Rightarrow> e' | Inr message \<Rightarrow> ?U),
                                     emit (RedisGET ck) s)))))"
    by (simp add: get_unfold get_from_backend_unsupported [OF assms] b try_catch_get_def
          catch_get_def
          cong: sum.case_cong option.case_cong prod.case_cong if_cong)
  have d: "dbInstance (snd (FnDatabaseAdapter_get w collection key options s)) = None"
    unfolding g using assms(2)
    by (auto simp add: emit_def split: sum.splits option.splits prod.splits)
  have t: "filter is_backend_event (trace (snd (FnDatabaseAdapter_get w collection key options s))) =
           filter is_backend_event (trace s)"
    unfolding g
    by (auto simp add: emit_def split: sum.splits option.splits prod.splits)
  show ?thesis using s f g d t by simp
qed

theorem unsupported_database_type_witness:
  "DATABASE_TYPE unsupported_world \<notin> {''mongodb'', ''firestore'', ''redis'', ''dynamodb''} \<and>
   dbInstance initial_state = None \<and>
   FnDatabaseAdapter_set unsupported_world ''users'' (JStr ''u1'') example_doc initial_state =
     (Inl (Error ''Unsupported database type: unsupported-type''), initial_state) \<and>
   FnDatabaseAdapter_fetch unsupported_world ''users'' (JObj []) initial_state =
     (Inl (Error ''Unsupported database type: unsupported-type''), initial_state) \<and>
   FnDatabaseAdapter_get unsupported_world ''users'' (JStr ''u1'') JUndefined initial_state =
     (Inl (Error ''Unsupported database type: unsupported-type''), initial_state) \<and>
   FnDatabaseAdapter_get unsupported_world ''users'' (JStr ''u1'') useCache_only initial_state =
     (Inl (Error ''Unsupported database type: unsupported-type''),
      emit (RedisGET ''users:u1'') initial_state) \<and>
   FnDatabaseAdapter_get unsupported_world ''orders'' unprintable_key JUndefined initial_state =
     (Inl TypeError, initial_state)"
proof -
  have h1: "DATABASE_TYPE unsupported_world \<notin> {''mongodb'', ''firestore'', ''redis'', ''dynamodb''}"
    by (simp add: example_world_simps)
  have h2: "dbInstance initial_state = None" by (simp add: initial_state_def)
  have d: "destructure_options unsupported_world JUndefined = Inr (JBool False, JNum 3600)"
    by (simp add: destructure_options_def DEFAULT_CACHE_EXPIRY_def unsupported_world_def
          example_world_def)
  have r: "fst (FnRedisService_get unsupported_world ''users:u1'' initial_state) = Inr JNull"
    by (simp add: FnRedisService_get_def unsupported_world_def example_world_def)
  have p: "ToString unprintable_key = Inl TypeError"
    by (simp add: unprintable_key_def)
  from unsupported_database_type [OF h1 h2, of "''users''" "JStr ''u1''" example_doc "JObj []"
      "JStr ''u1''" JUndefined]
    unsupported_database_type [OF h1 h2, of "''users''" "JStr ''u1''" example_doc "JObj []"
      "JStr ''u1''" useCache_only]
    unsupported_database_type [OF h1 h2, of "''orders''" "JStr ''u1''" example_doc "JObj []"
      unprintable_key JUndefined]
  show ?thesis using h1 h2
    by (simp add: example_world_simps d r p useCache_only_destructured users_u1_cacheKey
          unprintable_key_cacheKey cache_key_in_use_def)
qed

text \<open>C6 as stated fails: with an unsupported type and the document's text in the
  cache, \<^verbatim>\<open>get\<close> with \<^verbatim>\<open>useCache: true\<close> succeeds.\<close>

theorem unsupported_database_type_counterexample:
  "DATABASE_TYPE unsupported_cache_hit_world = ''unsupported-type'' \<and>
   cluster_get unsupported_cache_hit_world ''users:u1'' = Inr (Some example_cached_text) \<and>
   JSON_parse unsupported_cache_hit_world example_cached_text = Inr example_doc \<and>
   FnDatabaseAdapter_get unsupported_cache_hit_world ''users'' (JStr ''u1'') useCache_only
       initial_state =
     (Inr example_doc, \<lparr>dbInstance = None, trace = [RedisGET ''users:u1'']\<rparr>)"
proof -
  have c: "cluster_get unsupported_cache_hit_world ''users:u1'' = Inr (Some example_cached_text)"
    "JSON_parse unsupported_cache_hit_world example_cached_text = Inr example_doc"
    by (simp_all add: unsupported_cache_hit_world_def cache_hit_world_def example_world_def
          example_JSON_parse_def)
  have n: "example_cached_text \<noteq> []" by (simp add: example_cached_text_def)
  have t: "truthy example_doc" by (simp add: example_doc_def)
  have g: "FnDatabaseAdapter_get unsupported_cache_hit_world ''users'' (JStr ''u1'') useCache_only
       initial_state =
     (Inr example_doc, \<lparr>dbInstance = None, trace = [RedisGET ''users:u1'']\<rparr>)"
    by (simp add: FnDatabaseAdapter_get_def get_try_def useCache_only_destructured
          users_u1_cacheKey cache_key_in_use_def FnRedisService_get_def c n t emit_def
          initial_state_def)
  show ?thesis using c g by (simp add: example_world_simps)
qed

section \<open>Cache key of a scalar key\<close>

text \<open>
  C5 (as amended). For every string key the cache key derived by \<^verbatim>\<open>get\<close> is
  \<^verbatim>\<open>"{collection}:{key}"\<close>, and with a truthy \<^verbatim>\<open>useCache\<close> the cache is consulted
  under that key first: a truthy cached value is returned at once. On a miss (no entry,
  an empty entry or a falsy cached value), when the backend is resolved and returns a
  truthy document, the facade writes that document to the cache under that key, with
  \<^verbatim>\<open>cacheExpiry\<close> as expiry when it is truthy and with none otherwise, and returns the
  document if the write and the log line after it succeed. For a number key no cache
  key is derived, and the cache is neither consulted nor populated.
\<close>

theorem string_key_cache:
  assumes "destructure_options w options = Inr (useCache, cacheExpiry)"
    and "truthy useCache"
  shows "get_cacheKey collection (JStr k) = Inr (Some (collection @ '':'' @ k)) \<and>
         (\<exists>rest. trace (snd (FnDatabaseAdapter_get w collection (JStr k) options s)) =
                   trace s @ RedisGET (collection @ '':'' @ k) # rest) \<and>
         (cluster_get w (collection @ '':'' @ k) = Inr (Some d) \<longrightarrow> d \<noteq> [] \<longrightarrow>
          JSON_parse w d = Inr v \<longrightarrow> truthy v \<longrightarrow>
          FnDatabaseAdapter_get w collection (JStr k) options s =
            (Inr v, emit (RedisGET (collection @ '':'' @ k)) s)) \<and>
         (cluster_get w (collection @ '':'' @ k) = Inr None \<or>
          cluster_get w (collection @ '':'' @ k) = Inr (Some []) \<or>
          (cluster_get w (collection @ '':'' @ k) = Inr (Some d') \<and> d' \<noteq> [] \<and>
           JSON_parse w d' = Inr v' \<and> \<not> truthy v') \<longrightarrow>
          initialize w (emit (RedisGET (collection @ '':'' @ k)) s) = (Inr (), s1) \<longrightarrow>
          dbInstance s1 = Some db \<longrightarrow>
          backend_get db collection (JStr k) = Inr doc \<longrightarrow>
          truthy doc \<longrightarrow>
          FnDatabaseAdapter_get w collection (JStr k) options s =
            (case cluster_set w (collection @ '':'' @ k) (JSON_stringify w doc)
                    (if truthy cacheExpiry then Some cacheExpiry else None) of
               Inl e \<Rightarrow> Inl e
             | Inr u \<Rightarrow>
                 (case ToString cacheExpiry of Inl e \<Rightarrow> Inl e | Inr seconds \<Rightarrow> Inr doc),
             emit (RedisSET (collection @ '':'' @ k) (JSON_stringify w doc)
                     (if truthy cacheExpiry then Some cacheExpiry else None))
               (emit (BackendGet collection (JStr k)) s1))) \<and>
         get_cacheKey collection (JNum n) = Inr None \<and>
         filter is_cache_event (trace (snd (FnDatabaseAdapter_get w collection (JNum n) options s))) =
           filter is_cache_event (trace s)"
proof -
  define ck where "ck = collection @ '':'' @ k"
  define s0 where "s0 = emit (RedisGET ck) s"
  have ne: "ck \<noteq> []" by (simp add: ck_def)
  have k: "get_cacheKey collection (JStr k) = Inr (Some ck)"
    by (simp add: get_cacheKey_def template_key_def ck_def)
  have u: "cache_key_in_use useCache (Some ck) = Some ck"
    using assms(2) ne by (simp add: cache_key_in_use_def)
  have g: "FnDatabaseAdapter_get w collection (JStr k) options s =
             (case fst (FnRedisService_get w ck s) of
                Inl e \<Rightarrow> (Inl e, s0)
              | Inr cachedData \<Rightarrow>
                  if truthy cachedData then (Inr cachedData, s0)
                  else get_from_backend w collection (JStr k) cacheExpiry (Some ck) s0)"
    unfolding s0_def
    by (simp add: get_unfold assms(1) k u catch_get_def cong: sum.case_cong if_cong)
  obtain rest where p:
    "trace (snd (get_from_backend w collection (JStr k) cacheExpiry (Some ck) s0)) =
       trace s0 @ rest"
    using get_from_backend_trace_prefix by blast
  have consulted:
    "\<exists>rest. trace (snd (FnDatabaseAdapter_get w collection (JStr k) options s)) =
              trace s @ RedisGET ck # rest"
    unfolding g using p by (auto simp add: s0_def emit_def split: sum.splits)
  have hit: "FnDatabaseAdapter_get w collection (JStr k) options s = (Inr v, s0)"
    if "cluster_get w ck = Inr (Some d)" "d \<noteq> []" "JSON_parse w d = Inr v" "truthy v"
  proof -
    have "fst (FnRedisService_get w ck s) = Inr v"
      using that by (simp add: FnRedisService_get_def)
    then show ?thesis using that(4) by (simp add: g)
  qed
  have populated:
    "FnDatabaseAdapter_get w collection (JStr k) options s =
       (case cluster_set w ck (JSON_stringify w doc)
               (if truthy cacheExpiry then Some cacheExpiry else None) of
          Inl e \<Rightarrow> Inl e
        | Inr u \<Rightarrow> (case ToString cacheExpiry of Inl e \<Rightarrow> Inl e | Inr seconds \<Rightarrow> Inr doc),
        emit (RedisSET ck (JSON_stringify w doc)
                (if truthy cacheExpiry then Some cacheExpiry else None))
          (emit (BackendGet collection (JStr k)) s1))"
    if m: "cluster_get w ck = Inr None \<or> cluster_get w ck = Inr (Some []) \<or>
           (cluster_get w ck = Inr (Some d') \<and> d' \<noteq> [] \<and> JSON_parse w d' = Inr v' \<and>
            \<not> truthy v')"
      and i: "initialize w s0 = (Inr (), s1)" "dbInstance s1 = Some db"
      and b: "backend_get db collection (JStr k) = Inr doc" "truthy doc"
  proof -
    obtain c where c: "fst (FnRedisService_get w ck s) = Inr c" "\<not> truthy c"
      using m by (auto simp add: FnRedisService_get_def)
    have "FnDatabaseAdapter_get w collection (JStr k) options s =
            get_from_backend w collection (JStr k) cacheExpiry (Some ck) s0"
      using c by (simp add: g)
    then show ?thesis
      by (simp add: get_from_backend_populates [OF i b])
  qed
  have n: "get_cacheKey collection (JNum n) = Inr None"
    by (simp add: get_cacheKey_def)
  have nc: "filter is_cache_event
              (trace (snd (FnDatabaseAdapter_get w collection (JNum n) options s))) =
            filter is_cache_event (trace s)"
    by (simp add: get_unfold assms(1) n cache_key_in_use_def get_from_backend_no_cache_events)
  show ?thesis
    using k consulted hit populated n nc unfolding ck_def s0_def by blast
qed

theorem string_key_cache_witness:
  "destructure_options example_world useCache_only = Inr (JBool True, JUndefined) \<and>
   truthy (JBool True) \<and>
   cluster_get example_world ''users:u1'' = Inr None \<and>
   initialize example_world (emit (RedisGET ''users:u1'') ready_state) =
     (Inr (), emit (RedisGET ''users:u1'') ready_state) \<and>
   dbInstance (emit (RedisGET ''users:u1'') ready_state) = Some example_backend \<and>
   backend_get example_backend ''users'' (JStr ''u1'') = Inr example_doc \<and>
   truthy example_doc \<and>
   get_cacheKey ''users'' (JStr ''u1'') = Inr (Some ''users:u1'') \<and>
   FnDatabaseAdapter_get example_world ''users'' (JStr ''u1'') useCache_only ready_state =
     (Inr example_doc,
      emit (RedisSET ''users:u1'' (JStr example_cached_text) None)
        (emit (BackendGet ''users'' (JStr ''u1'')) (emit (RedisGET ''users:u1'') ready_state))) \<and>
   cluster_get cache_hit_world ''users:u1'' = Inr (Some example_cached_text) \<and>
   example_cached_text \<noteq> [] \<and>
   JSON_parse cache_hit_world example_cached_text = Inr example_doc \<and>
   FnDatabaseAdapter_get cache_hit_world ''users'' (JStr ''u1'') useCache_only ready_state =
     (Inr example_doc, emit (RedisGET ''users:u1'') ready_state) \<and>
   get_cacheKey ''users'' (JNum 42) = Inr None"
proof -
  have h1: "destructure_options w useCache_only = Inr (JBool True, JUndefined)" for w
    by (rule useCache_only_destructured)
  have h2: "truthy (JBool True)" by simp
  have m: "cluster_get example_world (''users'' @ '':'' @ ''u1'') = Inr None"
    by (simp add: example_world_def)
  have d: "dbInstance (emit (RedisGET (''users'' @ '':'' @ ''u1'')) ready_state) =
             Some example_backend"
    by (simp add: emit_def ready_state_def)
  have i: "initialize example_world (emit (RedisGET (''users'' @ '':'' @ ''u1'')) ready_state) =
             (Inr (), emit (RedisGET (''users'' @ '':'' @ ''u1'')) ready_state)"
    using d by (rule initialize_ready)
  have b: "backend_get example_backend ''users'' (JStr ''u1'') = Inr example_doc"
    by (simp add: example_backend_def)
  have t: "truthy example_doc" by (simp add: example_doc_def)
  have c: "cluster_set example_world = (\<lambda>key payload ex. Inr ())"
    "JSON_stringify example_world = JSON_stringify_builtin"
    by (simp_all add: example_world_def)
  have hc: "cluster_get cache_hit_world (''users'' @ '':'' @ ''u1'') = Inr (Some example_cached_text)"
    "JSON_parse cache_hit_world example_cached_text = Inr example_doc"
    by (simp_all add: cache_hit_world_def example_world_def example_JSON_parse_def)
  have ne: "example_cached_text \<noteq> []" by (simp add: example_cached_text_def)
  note T1 = string_key_cache [OF h1 h2, of "''users''" "''u1''" example_world ready_state
      "[]" JNull "[]" JNull "emit (RedisGET (''users'' @ '':'' @ ''u1'')) ready_state"
      example_backend example_doc 42]
  note T2 = string_key_cache [OF h1 h2, of "''users''" "''u1''" cache_hit_world ready_state
      example_cached_text example_doc "[]" JNull ready_state example_backend example_doc 42]
  have r1: "FnDatabaseAdapter_get example_world ''users'' (JStr ''u1'') useCache_only ready_state =
     (Inr example_doc,
      emit (RedisSET (''users'' @ '':'' @ ''u1'') (JStr example_cached_text) None)
        (emit (BackendGet ''users'' (JStr ''u1''))
           (emit (RedisGET (''users'' @ '':'' @ ''u1'')) ready_state)))"
    using T1 m i d b t by (simp add: c example_doc_text)
  have r2: "FnDatabaseAdapter_get cache_hit_world ''users'' (JStr ''u1'') useCache_only ready_state =
     (Inr example_doc, emit (RedisGET (''users'' @ '':'' @ ''u1'')) ready_state)"
    using T2 hc ne t by simp
  have r3: "get_cacheKey ''users'' (JStr ''u1'') = Inr (Some (''users'' @ '':'' @ ''u1'')) \<and>
            get_cacheKey ''users'' (JNum 42) = Inr None"
    using T1 by simp
  show ?thesis using h1 h2 m i d b t hc ne r1 r2 r3 by simp
qed

text \<open>C5 as stated fails for a number key: no cache key is derived, and with
  \<^verbatim>\<open>useCache: true\<close> the read goes to the backend without any cache command.\<close>

theorem number_key_counterexample:
  "get_cacheKey ''users'' (JNum 42) \<noteq> Inr (Some ''users:42'') \<and>
   FnDatabaseAdapter_get example_world ''users'' (JNum 42) useCache_only ready_state =
     (Inr example_doc,
      \<lparr>dbInstance = Some example_backend, trace = [BackendGet ''users'' (JNum 42)]\<rparr>)"
  by (simp add: FnDatabaseAdapter_get_def get_try_def useCache_only_destructured get_cacheKey_def
        cache_key_in_use_def get_from_backend_def initialize_def example_backend_def
        example_doc_def emit_def ready_state_def)

section \<open>Time to live of an entry written by a read\<close>

text \<open>
  C8 (the code at a failing input). \<^verbatim>\<open>get('users', 'u1', {useCache: true})\<close> on a
  cache miss, with the default expiry at 3600 seconds: \<^verbatim>\<open>cacheExpiry\<close> is
  \<^verbatim>\<open>undefined\<close>, and the entry is written by a \<^verbatim>\<open>SET\<close> without \<^verbatim>\<open>EX\<close>, so it never
  expires.
\<close>

theorem read_without_cacheExpiry_sets_no_ttl:
  "DEFAULT_CACHE_EXPIRY example_world = 3600 \<and>
   destructure_options example_world useCache_only = Inr (JBool True, JUndefined) \<and>
   trace (snd (FnDatabaseAdapter_get example_world ''users'' (JStr ''u1'') useCache_only
                 ready_state)) =
     [RedisGET ''users:u1'', BackendGet ''users'' (JStr ''u1''),
      RedisSET ''users:u1'' (JSON_stringify example_world example_doc) None]"
  by (simp add: example_world_simps useCache_only_destructured example_read)
     (simp add: example_world_def example_doc_text)

section \<open>Cache refresh after a write\<close>

lemma users_u1_set_cacheKey:
  "set_cacheKey ''users'' (JStr ''u1'') example_doc = Inr (Some ''users:u1'')"
  by (simp add: set_cacheKey_def and_member_def example_doc_def template_key_def)

text \<open>
  C2 (as amended). For every \<^verbatim>\<open>set\<close> whose backend write succeeds: when a cache key
  is derived, the facade writes the updated document to the cache under that key with
  the process-wide default expiry \<^verbatim>\<open>DEFAULT_CACHE_EXPIRY\<close> (never a per-read one), and
  \<^verbatim>\<open>set\<close> returns the updated document if that cache write succeeds and raises the
  cache's error if it fails. The key comes, on DynamoDB, from the item written and, on
  the other backends, from the \<^verbatim>\<open>_id\<close> of the returned document when truthy, else
  from its \<^verbatim>\<open>id\<close> when truthy, else from \<^verbatim>\<open>keyOrQuery\<close> when that is a string.
  No key is derived exactly when the backend is not DynamoDB, the returned document
  has neither a truthy \<^verbatim>\<open>_id\<close> nor a truthy \<^verbatim>\<open>id\<close>, and \<^verbatim>\<open>keyOrQuery\<close> is not a
  string; the cache is then left alone and the updated document is returned. When
  deriving the key raises, \<^verbatim>\<open>set\<close> fails with that error after the backend write, and
  the cache is left alone.
\<close>

theorem set_refreshes_cache:
  assumes "initialize w s = (Inr (), s1)"
    and "dbInstance s1 = Some db"
    and "args = (if DATABASE_TYPE w = ''dynamodb'' then [data] else [keyOrQuery, data])"
    and "backend_set db collection args = Inr updatedDoc"
    and "derived = (if DATABASE_TYPE w = ''dynamodb'' then set_cacheKey_dynamodb collection data
                    else set_cacheKey collection keyOrQuery updatedDoc)"
    and "and_member updatedDoc ''_id'' = Inr v_id"
    and "and_member updatedDoc ''id'' = Inr v"
  shows "FnDatabaseAdapter_set w collection keyOrQuery data s =
           (case derived of
              Inl e \<Rightarrow> (Inl e, emit (BackendSet collection args) s1)
            | Inr None \<Rightarrow> (Inr updatedDoc, emit (BackendSet collection args) s1)
            | Inr (Some ck) \<Rightarrow>
                (case cluster_set w ck (JSON_stringify w updatedDoc)
                        (Some (JNum (DEFAULT_CACHE_EXPIRY w))) of
                   Inl e \<Rightarrow> Inl e
                 | Inr u \<Rightarrow> Inr updatedDoc,
                 emit (RedisSET ck (JSON_stringify w updatedDoc)
                         (Some (JNum (DEFAULT_CACHE_EXPIRY w))))
                   (emit (BackendSet collection args) s1))) \<and>
         (derived = Inr None) =
           (DATABASE_TYPE w \<noteq> ''dynamodb'' \<and> \<not> truthy v_id \<and> \<not> truthy v \<and>
            typeof keyOrQuery \<noteq> ''string'') \<and>
         (DATABASE_TYPE w \<noteq> ''dynamodb'' \<longrightarrow> truthy v_id \<longrightarrow>
          derived = (case call_toString v_id of
                       Inl e \<Rightarrow> Inl e
                     | Inr str \<Rightarrow> Inr (Some (collection @ '':'' @ str)))) \<and>
         (DATABASE_TYPE w \<noteq> ''dynamodb'' \<longrightarrow> \<not> truthy v_id \<longrightarrow> truthy v \<longrightarrow>
          derived = (case ToString v of
                       Inl e \<Rightarrow> Inl e
                     | Inr str \<Rightarrow> Inr (Some (collection @ '':'' @ str)))) \<and>
         (DATABASE_TYPE w \<noteq> ''dynamodb'' \<longrightarrow> \<not> truthy v_id \<longrightarrow> \<not> truthy v \<longrightarrow>
          keyOrQuery = JStr k \<longrightarrow>
          derived = Inr (Some (collection @ '':'' @ k))) \<and>
         (DATABASE_TYPE w = ''dynamodb'' \<longrightarrow>
          derived = (case index_by_keys data of
                       Inl e \<Rightarrow> Inl e
                     | Inr x \<Rightarrow>
                         (case ToString x of
                            Inl e \<Rightarrow> Inl e
                          | Inr str \<Rightarrow> Inr (Some (collection @ '':'' @ str)))))"
proof -
  have run: "FnDatabaseAdapter_set w collection keyOrQuery data s =
           (case derived of
              Inl e \<Rightarrow> (Inl e, emit (BackendSet collection args) s1)
            | Inr None \<Rightarrow> (Inr updatedDoc, emit (BackendSet collection args) s1)
            | Inr (Some ck) \<Rightarrow>
                (case cluster_set w ck (JSON_stringify w updatedDoc)
                        (Some (JNum (DEFAULT_CACHE_EXPIRY w))) of
                   Inl e \<Rightarrow> Inl e
                 | Inr u \<Rightarrow> Inr updatedDoc,
                 emit (RedisSET ck (JSON_stringify w updatedDoc)
                         (Some (JNum (DEFAULT_CACHE_EXPIRY w))))
                   (emit (BackendSet collection args) s1)))"
  proof -
    have run0: "FnDatabaseAdapter_set w collection keyOrQuery data s =
           (case derived of
              Inl e \<Rightarrow> (Inl e, emit (BackendSet collection args) s1)
            | Inr cacheKey \<Rightarrow>
                refresh_cache w cacheKey updatedDoc (emit (BackendSet collection args) s1))"
      using assms(1-4) unfolding assms(5)
      by (cases "DATABASE_TYPE w = ''dynamodb''") (simp_all add: FnDatabaseAdapter_set_def cong: sum.case_cong)
    show ?thesis
    proof (cases derived)
      case (Inl e)
      then show ?thesis by (simp add: run0)
    next
      case (Inr cacheKey)
      show ?thesis
      proof (cases cacheKey)
        case None
        then show ?thesis using Inr by (simp add: run0 refresh_cache_def)
      next
        case (Some ck)
        have ne: "ck \<noteq> []"
          using assms(5) [symmetric] Inr Some
          by (auto split: if_splits dest: set_cacheKey_nonempty set_cacheKey_dynamodb_nonempty)
        show ?thesis
          using Inr Some ne DEFAULT_CACHE_EXPIRY_nonzero [of w]
          by (simp add: run0 refresh_cache_def FnRedisService_set_unfold split: sum.splits)
      qed
    qed
  qed
  have doc: "set_cacheKey collection keyOrQuery updatedDoc =
               (if truthy v_id then
                  (case call_toString v_id of
                     Inl e \<Rightarrow> Inl e
                   | Inr str \<Rightarrow> Inr (Some (collection @ '':'' @ str)))
                else if truthy v then
                  (case ToString v of
                     Inl e \<Rightarrow> Inl e
                   | Inr str \<Rightarrow> Inr (Some (collection @ '':'' @ str)))
                else if typeof keyOrQuery = ''string'' then
                  (case ToString keyOrQuery of
                     Inl e \<Rightarrow> Inl e
                   | Inr str \<Rightarrow> Inr (Some (collection @ '':'' @ str)))
                else Inr None)"
    using assms(6,7) by (simp add: set_cacheKey_def template_key_def split: sum.splits)
  have dyn: "set_cacheKey_dynamodb collection data =
               (case index_by_keys data of
                  Inl e \<Rightarrow> Inl e
                | Inr x \<Rightarrow>
                    (case ToString x of
                       Inl e \<Rightarrow> Inl e
                     | Inr str \<Rightarrow> Inr (Some (collection @ '':'' @ str))))"
    by (simp add: set_cacheKey_dynamodb_def template_key_def split: sum.splits)
  have str: "typeof keyOrQuery = ''string'' \<Longrightarrow> \<exists>k. keyOrQuery = JStr k"
    by (cases keyOrQuery) simp_all
  have none: "(derived = Inr None) =
           (DATABASE_TYPE w \<noteq> ''dynamodb'' \<and> \<not> truthy v_id \<and> \<not> truthy v \<and>
            typeof keyOrQuery \<noteq> ''string'')"
    using assms(5) str by (auto simp add: doc dyn split: sum.splits)
  have c1: "derived = (case call_toString v_id of
                         Inl e \<Rightarrow> Inl e
                       | Inr str \<Rightarrow> Inr (Some (collection @ '':'' @ str)))"
    if "DATABASE_TYPE w \<noteq> ''dynamodb''" "truthy v_id"
    using that assms(5) by (simp add: doc)
  have c2: "derived = (case ToString v of
                         Inl e \<Rightarrow> Inl e
                       | Inr str \<Rightarrow> Inr (Some (collection @ '':'' @ str)))"
    if "DATABASE_TYPE w \<noteq> ''dynamodb''" "\<not> truthy v_id" "truthy v"
    using that assms(5) by (simp add: doc)
  have c3: "derived = Inr (Some (collection @ '':'' @ k))"
    if "DATABASE_TYPE w \<noteq> ''dynamodb''" "\<not> truthy v_id" "\<not> truthy v" "keyOrQuery = JStr k"
  proof -
    have "derived = set_cacheKey collection keyOrQuery updatedDoc"
      using that(1) assms(5) by simp
    then show ?thesis unfolding doc using that(2-4) by simp
  qed
  have c4: "derived = (case index_by_keys data of
                         Inl e \<Rightarrow> Inl e
                       | Inr x \<Rightarrow>
                           (case ToString x of
                              Inl e \<Rightarrow> Inl e
                            | Inr str \<Rightarrow> Inr (Some (collection @ '':'' @ str))))"
    if "DATABASE_TYPE w = ''dynamodb''"
    using that assms(5) by (simp add: dyn)
  show ?thesis
    using run none c1 c2 c3 c4 by blast
qed

theorem set_refreshes_cache_witness:
  "initialize example_world ready_state = (Inr (), ready_state) \<and>
   dbInstance ready_state = Some example_backend \<and>
   backend_set example_backend ''users'' [JStr ''u1'', example_doc] = Inr example_doc \<and>
   and_member example_doc ''_id'' = Inr JUndefined \<and>
   and_member example_doc ''id'' = Inr (JStr ''u1'') \<and>
   set_cacheKey ''users'' (JStr ''u1'') example_doc = Inr (Some ''users:u1'') \<and>
   FnDatabaseAdapter_set example_world ''users'' (JStr ''u1'') example_doc ready_state =
     (Inr example_doc,
      emit (RedisSET ''users:u1'' (JStr example_cached_text) (Some (JNum 3600)))
        (emit (BackendSet ''users'' [JStr ''u1'', example_doc]) ready_state)) \<and>
   backend_set example_backend ''users''
       [JObj [(''email'', JStr ''a@b.c'')], JObj [(''name'', JStr ''A'')]] =
     Inr (JObj [(''name'', JStr ''A'')]) \<and>
   set_cacheKey ''users'' (JObj [(''email'', JStr ''a@b.c'')]) (JObj [(''name'', JStr ''A'')]) =
     Inr None \<and>
   FnDatabaseAdapter_set example_world ''users'' (JObj [(''email'', JStr ''a@b.c'')])
       (JObj [(''name'', JStr ''A'')]) ready_state =
     (Inr (JObj [(''name'', JStr ''A'')]),
      emit (BackendSet ''users'' [JObj [(''email'', JStr ''a@b.c'')], JObj [(''name'', JStr ''A'')]])
        ready_state) \<and>
   backend_set example_backend ''users'' [example_doc] = Inr example_doc \<and>
   set_cacheKey_dynamodb ''users'' example_doc = Inr (Some ''users:undefined'') \<and>
   FnDatabaseAdapter_set dynamodb_world ''users'' JUndefined example_doc ready_state =
     (Inr example_doc,
      emit (RedisSET ''users:undefined'' (JStr example_cached_text) (Some (JNum 3600)))
        (emit (BackendSet ''users'' [example_doc]) ready_state))"
proof -
  let ?q = "JObj [(''email'', JStr ''a@b.c'')]"
  let ?n = "JObj [(''name'', JStr ''A'')]"
  have h2: "dbInstance ready_state = Some example_backend" by (simp add: ready_state_def)
  have h1: "initialize w ready_state = (Inr (), ready_state)" for w
    using h2 by (rule initialize_ready)
  have w: "cluster_set example_world = (\<lambda>key payload ex. Inr ())"
    "JSON_stringify example_world = JSON_stringify_builtin"
    "cluster_set dynamodb_world = (\<lambda>key payload ex. Inr ())"
    "JSON_stringify dynamodb_world = JSON_stringify_builtin"
    by (simp_all add: example_world_def dynamodb_world_def)
  have m: "and_member example_doc ''_id'' = Inr JUndefined"
    "and_member example_doc ''id'' = Inr (JStr ''u1'')"
    "and_member ?n ''_id'' = Inr JUndefined"
    "and_member ?n ''id'' = Inr JUndefined"
    by (simp_all add: and_member_def example_doc_def)
  have a3: "[JStr ''u1'', example_doc] =
              (if DATABASE_TYPE example_world = ''dynamodb'' then [example_doc]
               else [JStr ''u1'', example_doc])"
    by (simp add: example_world_simps)
  have a4: "backend_set example_backend ''users'' [JStr ''u1'', example_doc] = Inr example_doc"
    by (simp add: example_backend_def)
  have a5: "Inr (Some ''users:u1'') =
              (if DATABASE_TYPE example_world = ''dynamodb''
               then set_cacheKey_dynamodb ''users'' example_doc
               else set_cacheKey ''users'' (JStr ''u1'') example_doc)"
    by (simp add: example_world_simps users_u1_set_cacheKey)
  have b3: "[?q, ?n] =
              (if DATABASE_TYPE example_world = ''dynamodb'' then [?n] else [?q, ?n])"
    by (simp add: example_world_simps)
  have b4: "backend_set example_backend ''users'' [?q, ?n] = Inr ?n"
    by (simp add: example_backend_def)
  have bk: "set_cacheKey ''users'' ?q ?n = Inr None"
    by (simp add: set_cacheKey_def and_member_def)
  have b5: "Inr None =
              (if DATABASE_TYPE example_world = ''dynamodb''
               then set_cacheKey_dynamodb ''users'' ?n
               else set_cacheKey ''users'' ?q ?n)"
    by (simp add: example_world_simps bk)
  have c3: "[example_doc] =
              (if DATABASE_TYPE dynamodb_world = ''dynamodb'' then [example_doc]
               else [JUndefined, example_doc])"
    by (simp add: example_world_simps)
  have c4: "backend_set example_backend ''users'' [example_doc] = Inr example_doc"
    by (simp add: example_backend_def)
  have ck: "set_cacheKey_dynamodb ''users'' example_doc = Inr (Some ''users:undefined'')"
    by (simp add: set_cacheKey_dynamodb_def index_by_keys_def template_key_def example_doc_def)
  have c5: "Inr (Some ''users:undefined'') =
              (if DATABASE_TYPE dynamodb_world = ''dynamodb''
               then set_cacheKey_dynamodb ''users'' example_doc
               else set_cacheKey ''users'' JUndefined example_doc)"
    by (simp add: example_world_simps ck)
  have ra: "FnDatabaseAdapter_set example_world ''users'' (JStr ''u1'') example_doc ready_state =
     (Inr example_doc,
      emit (RedisSET ''users:u1'' (JStr example_cached_text) (Some (JNum 3600)))
        (emit (BackendSet ''users'' [JStr ''u1'', example_doc]) ready_state))"
    using set_refreshes_cache [OF h1 h2 a3 a4 a5 m(1) m(2)]
    by (simp add: example_world_simps w example_doc_text)
  have rb: "FnDatabaseAdapter_set example_world ''users'' ?q ?n ready_state =
     (Inr ?n, emit (BackendSet ''users'' [?q, ?n]) ready_state)"
    using set_refreshes_cache [OF h1 h2 b3 b4 b5 m(3) m(4)] by simp
  have rc: "FnDatabaseAdapter_set dynamodb_world ''users'' JUndefined example_doc ready_state =
     (Inr example_doc,
      emit (RedisSET ''users:undefined'' (JStr example_cached_text) (Some (JNum 3600)))
        (emit (BackendSet ''users'' [example_doc]) ready_state))"
    using set_refreshes_cache [OF h1 h2 c3 c4 c5 m(1) m(2)]
    by (simp add: example_world_simps w example_doc_text)
  show ?thesis
    using h1 h2 a4 m(1) m(2) users_u1_set_cacheKey ra b4 bk rb c4 ck rc by simp
qed

text \<open>C2 as stated fails twice. With the cache down the backend write succeeds and
  \<^verbatim>\<open>set\<close> raises the cache's error; and a write by query whose returned document has
  neither \<^verbatim>\<open>_id\<close> nor \<^verbatim>\<open>id\<close> sends no cache command at all.\<close>

theorem set_refreshes_cache_counterexample:
  "backend_set example_backend ''users'' [JStr ''u1'', example_doc] = Inr example_doc \<and>
   FnDatabaseAdapter_set cache_down_world ''users'' (JStr ''u1'') example_doc ready_state =
     (Inl (Error ''ECONNREFUSED''),
      \<lparr>dbInstance = Some example_backend,
       trace = [BackendSet ''users'' [JStr ''u1'', example_doc],
                RedisSET ''users:u1'' (JStr example_cached_text) (Some (JNum 3600))]\<rparr>) \<and>
   FnDatabaseAdapter_set example_world ''users'' (JObj [(''email'', JStr ''a@b.c'')])
       (JObj [(''name'', JStr ''A'')]) ready_state =
     (Inr (JObj [(''name'', JStr ''A'')]),
      \<lparr>dbInstance = Some example_backend,
       trace = [BackendSet ''users'' [JObj [(''email'', JStr ''a@b.c'')],
                                      JObj [(''name'', JStr ''A'')]]]\<rparr>)"
proof -
  have a: "backend_set example_backend ''users'' [JStr ''u1'', example_doc] = Inr example_doc"
    by (simp add: example_backend_def)
  have w: "cluster_set cache_down_world = (\<lambda>key payload ex. Inl (Error ''ECONNREFUSED''))"
    "JSON_stringify cache_down_world = JSON_stringify_builtin"
    by (simp_all add: cache_down_world_def example_world_def)
  have b: "FnDatabaseAdapter_set cache_down_world ''users'' (JStr ''u1'') example_doc ready_state =
     (Inl (Error ''ECONNREFUSED''),
      \<lparr>dbInstance = Some example_backend,
       trace = [BackendSet ''users'' [JStr ''u1'', example_doc],
                RedisSET ''users:u1'' (JStr example_cached_text) (Some (JNum 3600))]\<rparr>)"
    by (simp add: FnDatabaseAdapter_set_def initialize_def example_world_simps a
          users_u1_set_cacheKey refresh_cache_def FnRedisService_set_def w example_doc_text
          emit_def ready_state_def)
  have c: "FnDatabaseAdapter_set example_world ''users'' (JObj [(''email'', JStr ''a@b.c'')])
       (JObj [(''name'', JStr ''A'')]) ready_state =
     (Inr (JObj [(''name'', JStr ''A'')]),
      \<lparr>dbInstance = Some example_backend,
       trace = [BackendSet ''users'' [JObj [(''email'', JStr ''a@b.c'')],
                                      JObj [(''name'', JStr ''A'')]]]\<rparr>)"
    by (simp add: FnDatabaseAdapter_set_def initialize_def example_world_simps
          example_backend_def set_cacheKey_def and_member_def refresh_cache_def emit_def
          ready_state_def)
  show ?thesis using a b c by simp
qed

end
